theory Spec2Isabelle
  imports Complex_Main "HOL-Library.AList" "HOL-Library.Char_ord" "HOL-Library.List_Lexorder"
begin

section \<open>Element trees\<close>

text \<open>
  A Python string is a sequence of code points; placeholders are code points above
  \<open>0xE000\<close>, so text is a list of naturals. Tags and attribute names are ordinary
  strings. An element has a tag, an ordered attribute dictionary with unique keys,
  an optional text, an optional tail and its children, as lxml presents it.
\<close>

type_synonym ustring = "nat list"

type_synonym attrs = "(string \<times> string) list"

datatype xml =
  Element (xtag: string) (xattrib: attrs) (xtext: "ustring option")
    (xtail: "ustring option") (xchildren: "xml list")

text \<open>
  The differ compares elements by identity (\<open>is\<close>, \<open>id(node)\<close>). A node of the
  copied left tree is named by its path in the original left tree, a node of the right
  tree by its path in the right tree, and an element created by \<open>makeelement\<close> by the
  path of the right node it is created for.
\<close>

datatype nid = LeftN "nat list" | RightN "nat list" | NewN "nat list"

datatype elem =
  Elem (eid: nid) (etag: string) (eattrib: attrs) (etext: "ustring option")
    (etail: "ustring option") (echildren: "elem list")

fun label_elem :: "(nat list \<Rightarrow> nid) \<Rightarrow> nat list \<Rightarrow> xml \<Rightarrow> elem"
  and label_elems :: "(nat list \<Rightarrow> nid) \<Rightarrow> nat list \<Rightarrow> nat \<Rightarrow> xml list \<Rightarrow> elem list"
where
  "label_elem mk p (Element t a x y cs) = Elem (mk p) t a x y (label_elems mk p 0 cs)"
| "label_elems mk p i [] = []"
| "label_elems mk p i (c # cs) = label_elem mk (p @ [i]) c # label_elems mk p (Suc i) cs"

fun erase :: "elem \<Rightarrow> xml" where
  "erase (Elem i t a x y cs) = Element t a x y (map erase cs)"

section \<open>Text utilities (utils.py)\<close>

definition isspace :: "nat \<Rightarrow> bool" where
  "isspace c \<longleftrightarrow>
     (9 \<le> c \<and> c \<le> 13) \<or> (28 \<le> c \<and> c \<le> 32) \<or> c = 133 \<or> c = 160 \<or> c = 5760 \<or>
     (8192 \<le> c \<and> c \<le> 8202) \<or> c = 8232 \<or> c = 8233 \<or> c = 8239 \<or> c = 8287 \<or> c = 12288"

definition strip :: "ustring \<Rightarrow> ustring" where
  "strip s = rev (dropWhile isspace (rev (dropWhile isspace s)))"

text \<open>\<open>WHITESPACE.sub(" ", text)\<close>: every maximal run of whitespace becomes one space.\<close>

fun sub_whitespace :: "bool \<Rightarrow> ustring \<Rightarrow> ustring" where
  "sub_whitespace in_run [] = []"
| "sub_whitespace in_run (c # cs) =
     (if isspace c then (if in_run then sub_whitespace True cs else 32 # sub_whitespace True cs)
      else c # sub_whitespace False cs)"

definition cleanup_whitespace :: "ustring \<Rightarrow> ustring" where
  "cleanup_whitespace s = sub_whitespace False s"

fun join :: "ustring \<Rightarrow> ustring list \<Rightarrow> ustring" where
  "join sep [] = []"
| "join sep [x] = x"
| "join sep (x # y # ys) = x @ sep @ join sep (y # ys)"

text \<open>
  \<open>splitString\<close>: \<open>cur\<close> is \<open>text[stringStart:i]\<close>. A character of the split list
  closes the running token and is a token itself; a space closes the running token.
\<close>

definition flush :: "ustring \<Rightarrow> ustring list" where
  "flush cur = (if cur = [] then [] else [cur])"

fun split_from :: "nat list \<Rightarrow> ustring \<Rightarrow> ustring \<Rightarrow> ustring list" where
  "split_from seps cur [] = flush cur"
| "split_from seps cur (c # cs) =
     (if c \<in> set seps then flush cur @ [[c]] @ split_from seps [] cs
      else if c = 32 then flush cur @ split_from seps [] cs
      else split_from seps (cur @ [c]) cs)"

definition splitString :: "ustring \<Rightarrow> nat list \<Rightarrow> ustring list" where
  "splitString txt placeholderList = split_from ([59, 33, 63] @ placeholderList) [] txt"

text \<open>
  \<open>diff_wordsToChars\<close>: every distinct token is interned as the character whose code
  point is its index in \<open>wordsArray\<close>; the right token list is folded first.
\<close>

fun diff_wordsToCharsMunge ::
  "ustring list \<Rightarrow> ustring list \<times> (ustring \<rightharpoonup> nat) \<Rightarrow> ustring \<times> ustring list \<times> (ustring \<rightharpoonup> nat)"
where
  "diff_wordsToCharsMunge [] (wordsArray, wordsHash) = ([], wordsArray, wordsHash)"
| "diff_wordsToCharsMunge (token # tokens) (wordsArray, wordsHash) =
     (case wordsHash token of
        Some n \<Rightarrow>
          (case diff_wordsToCharsMunge tokens (wordsArray, wordsHash) of
             (chars, wa, wh) \<Rightarrow> (n # chars, wa, wh))
      | None \<Rightarrow>
          (case diff_wordsToCharsMunge tokens
                  (wordsArray @ [token], wordsHash(token \<mapsto> length wordsArray)) of
             (chars, wa, wh) \<Rightarrow> (length wordsArray # chars, wa, wh)))"

definition diff_wordsToChars :: "ustring list \<Rightarrow> ustring list \<Rightarrow> ustring \<times> ustring \<times> ustring list" where
  "diff_wordsToChars tokenList1 tokenList2 =
     (case diff_wordsToCharsMunge tokenList2 ([[]], Map.empty) of
        (chars2, wa2, wh2) \<Rightarrow>
          (case diff_wordsToCharsMunge tokenList1 (wa2, wh2) of
             (chars1, wa1, wh1) \<Rightarrow> (chars1, chars2, wa1)))"

section \<open>Similarity of two nodes (diff.py)\<close>

text \<open>
  A unique attribute is configured by name, or as a pair of a tag and a name.
\<close>

datatype uattr = Attr string | TagAttr string string

text \<open>
  Keys of the match dictionaries. The differ stores partners under \<open>id(node)\<close>;
  \<open>find_pos\<close> also looks an element itself up in the dictionary. \<open>Id None\<close> is
  \<open>id(None)\<close>.
\<close>

datatype pykey = Id "nid option" | Obj nid

text \<open>
  \<open>node.xpath("text()")\<close>: the text children of a node, that is its own text and the
  tails of its children, where present.
\<close>

definition opt_text :: "ustring option \<Rightarrow> ustring list" where
  "opt_text t = (case t of None \<Rightarrow> [] | Some s \<Rightarrow> (if s = [] then [] else [s]))"

definition text_nodes :: "elem \<Rightarrow> ustring list" where
  "text_nodes node = opt_text (etext node) @ concat (map (\<lambda>c. opt_text (etail c)) (echildren node))"

definition node_text :: "elem \<Rightarrow> ustring" where
  "node_text node = cleanup_whitespace (strip (join [32] (text_nodes node)))"

definition node_weight :: "elem \<Rightarrow> nat" where
  "node_weight node = 1 + length (node_text node)"

text \<open>
  The module \<open>diff_match_patch\<close> is not among the sources; \<open>lev c1 c2\<close> stands for
  \<open>dmp.diff_levenshtein(dmp.diff_main(c1, c2))\<close> and is a parameter of everything below.
  Scores are exact rationals.
\<close>

definition leaf_ratio :: "(ustring \<Rightarrow> ustring \<Rightarrow> nat) \<Rightarrow> elem \<Rightarrow> elem \<Rightarrow> nat \<times> rat" where
  "leaf_ratio lev l r =
     (let ltext = node_text l; rtext = node_text r in
      if length ltext = 0 \<and> length rtext = 0 then
        (if etag l = etag r then (1, 1) else (0, 0))
      else if length ltext = 0 \<or> length rtext = 0 then
        (max (length ltext) (length rtext), 0)
      else
        (case diff_wordsToChars (splitString ltext []) (splitString rtext []) of
           (char1, char2, wa) \<Rightarrow>
             (max (length rtext) (length ltext),
              1 - of_nat (lev char1 char2) / of_nat (max (length char1) (length char2)))))"

text \<open>
  \<open>child_ratio\<close>: the inner loop takes, for each left child, the first right child
  still in the working list that is its partner, and removes it from the list.
\<close>

fun equal_weight :: "(pykey \<rightharpoonup> nid option) \<Rightarrow> elem list \<Rightarrow> elem list \<Rightarrow> nat" where
  "equal_weight l2r [] right_children = 0"
| "equal_weight l2r (lchild # ls) right_children =
     (case find (\<lambda>rchild. l2r (Id (Some (eid lchild))) = Some (Some (eid rchild))) right_children of
        Some rchild \<Rightarrow>
          node_weight lchild + node_weight rchild +
          equal_weight l2r ls (remove1 rchild right_children)
      | None \<Rightarrow> equal_weight l2r ls right_children)"

definition child_ratio :: "(pykey \<rightharpoonup> nid option) \<Rightarrow> elem \<Rightarrow> elem \<Rightarrow> rat \<times> rat option" where
  "child_ratio l2r l r =
     (let left_children = echildren l; right_children = echildren r in
      if left_children = [] \<and> right_children = [] then (0, None)
      else
        (let total_weight = sum_list (map node_weight left_children)
                          + sum_list (map node_weight right_children)
         in (of_nat total_weight / 2,
             Some (of_nat (equal_weight l2r left_children right_children) / of_nat total_weight))))"

text \<open>
  The loop over \<open>uniqueattrs\<close> of \<open>node_ratio\<close>: \<open>Some v\<close> when the loop returns
  \<open>v\<close>, \<open>None\<close> when it runs to its end.
\<close>

fun unique_ratio :: "uattr list \<Rightarrow> elem \<Rightarrow> elem \<Rightarrow> rat option" where
  "unique_ratio [] l r = None"
| "unique_ratio (Attr a # us) l r =
     (if map_of (eattrib l) a \<noteq> None \<or> map_of (eattrib r) a \<noteq> None
      then Some (if map_of (eattrib l) a = map_of (eattrib r) a then 1 else 0)
      else unique_ratio us l r)"
| "unique_ratio (TagAttr t a # us) l r =
     (if t \<noteq> etag l \<or> t \<noteq> etag r then unique_ratio us l r
      else if map_of (eattrib l) a \<noteq> None \<or> map_of (eattrib r) a \<noteq> None
      then Some (if map_of (eattrib l) a = map_of (eattrib r) a then 1 else 0)
      else unique_ratio us l r)"

definition weighted_ratio :: "(ustring \<Rightarrow> ustring \<Rightarrow> nat) \<Rightarrow> (pykey \<rightharpoonup> nid option) \<Rightarrow> elem \<Rightarrow> elem \<Rightarrow> rat" where
  "weighted_ratio lev l2r l r =
     (case leaf_ratio lev l r of
        (leaf_weight, m) \<Rightarrow>
          (case child_ratio l2r l r of
             (child_weight, None) \<Rightarrow> m
           | (child_weight, Some cr) \<Rightarrow>
               (of_nat leaf_weight * m + child_weight * cr) / (of_nat leaf_weight + child_weight)))"

definition node_ratio ::
  "uattr list \<Rightarrow> (ustring \<Rightarrow> ustring \<Rightarrow> nat) \<Rightarrow> (pykey \<rightharpoonup> nid option) \<Rightarrow> elem \<Rightarrow> elem \<Rightarrow> rat"
where
  "node_ratio uniqueattrs lev l2r l r =
     (case unique_ratio uniqueattrs l r of
        Some v \<Rightarrow> v
      | None \<Rightarrow> weighted_ratio lev l2r l r)"


section \<open>Properties of the similarity scores\<close>

text \<open>
  C6, as stated: the weight returned by \<open>leaf_ratio\<close> is the larger of the two text
  lengths in every case. This fails for two nodes with the same tag and no text: the
  source returns \<open>(1, 1)\<close> there.
\<close>

theorem leaf_ratio_weight_counterexample:
  "\<not> (\<forall>lev l r. fst (leaf_ratio lev l r) = max (length (node_text l)) (length (node_text r)))"
proof
  assume a: "\<forall>lev l r. fst (leaf_ratio lev l r) = max (length (node_text l)) (length (node_text r))"
  let ?l = "Elem (LeftN []) ''a'' [] None None []"
  let ?r = "Elem (RightN []) ''a'' [] None None []"
  have t: "node_text ?l = []" "node_text ?r = []"
    by (simp_all add: node_text_def text_nodes_def opt_text_def strip_def cleanup_whitespace_def)
  have "fst (leaf_ratio (\<lambda>c1 c2. 0) ?l ?r) = 1"
    by (simp add: leaf_ratio_def t)
  moreover from a have "fst (leaf_ratio (\<lambda>c1 c2. 0) ?l ?r) = max (length (node_text ?l)) (length (node_text ?r))"
    by blast
  ultimately show False by (simp add: t)
qed

text \<open>
  C6, amended: the weight is the larger of the two text lengths, except that it is 1 when
  both texts are empty and the tags are equal. The score is 1 when both texts are empty
  and the tags are equal, 0 when both are empty and the tags differ, and 0 when exactly
  one text is empty.
\<close>

theorem leaf_ratio_weight_score:
  "fst (leaf_ratio lev l r) =
     (if node_text l = [] \<and> node_text r = [] \<and> etag l = etag r then 1
      else max (length (node_text l)) (length (node_text r)))
   \<and> (node_text l = [] \<and> node_text r = [] \<and> etag l = etag r \<longrightarrow> snd (leaf_ratio lev l r) = 1)
   \<and> (node_text l = [] \<and> node_text r = [] \<and> etag l \<noteq> etag r \<longrightarrow> snd (leaf_ratio lev l r) = 0)
   \<and> ((node_text l = []) \<noteq> (node_text r = []) \<longrightarrow> snd (leaf_ratio lev l r) = 0)"
  by (auto simp: leaf_ratio_def Let_def max_def split: prod.splits)

theorem leaf_ratio_weight_score_witness:
  "leaf_ratio (\<lambda>c1 c2. 0) (Elem (LeftN []) ''a'' [] None None []) (Elem (RightN []) ''a'' [] None None []) = (1, 1)
   \<and> leaf_ratio (\<lambda>c1 c2. 0) (Elem (LeftN []) ''a'' [] None None []) (Elem (RightN []) ''b'' [] None None []) = (0, 0)
   \<and> leaf_ratio (\<lambda>c1 c2. 0) (Elem (LeftN []) ''a'' [] (Some [120, 121]) None []) (Elem (RightN []) ''a'' [] None None []) = (2, 0)"
proof -
  let ?a = "Elem (LeftN []) ''a'' [] None None []"
  let ?a' = "Elem (RightN []) ''a'' [] None None []"
  let ?b' = "Elem (RightN []) ''b'' [] None None []"
  let ?x = "Elem (LeftN []) ''a'' [] (Some [120, 121]) None []"
  have t: "node_text ?a = []" "node_text ?a' = []" "node_text ?b' = []" "node_text ?x = [120, 121]"
    by (simp_all add: node_text_def text_nodes_def opt_text_def strip_def cleanup_whitespace_def
        isspace_def)
  have 1: "leaf_ratio (\<lambda>c1 c2. 0) ?a ?a' = (1, 1)"
    using leaf_ratio_weight_score [of "\<lambda>c1 c2. 0" ?a ?a'] t
    by (simp add: prod_eq_iff)
  have 2: "leaf_ratio (\<lambda>c1 c2. 0) ?a ?b' = (0, 0)"
    using leaf_ratio_weight_score [of "\<lambda>c1 c2. 0" ?a ?b'] t
    by (simp add: prod_eq_iff)
  have 3: "leaf_ratio (\<lambda>c1 c2. 0) ?x ?a' = (2, 0)"
    using leaf_ratio_weight_score [of "\<lambda>c1 c2. 0" ?x ?a'] t
    by (simp add: prod_eq_iff)
  from 1 2 3 show ?thesis by simp
qed

text \<open>
  An entry of \<open>uniqueattrs\<close> applies to a pair of nodes when it is a plain name, or when
  its tag is the tag of both nodes; \<open>uattr_name\<close> is the attribute it names.
\<close>

fun uattr_applies :: "uattr \<Rightarrow> elem \<Rightarrow> elem \<Rightarrow> bool" where
  "uattr_applies (Attr a) l r = True"
| "uattr_applies (TagAttr t a) l r = (t = etag l \<and> t = etag r)"

fun uattr_name :: "uattr \<Rightarrow> string" where
  "uattr_name (Attr a) = a"
| "uattr_name (TagAttr t a) = a"

definition uattr_decides :: "uattr \<Rightarrow> elem \<Rightarrow> elem \<Rightarrow> bool" where
  "uattr_decides u l r \<longleftrightarrow>
     uattr_applies u l r \<and>
     (map_of (eattrib l) (uattr_name u) \<noteq> None \<or> map_of (eattrib r) (uattr_name u) \<noteq> None)"

definition uattr_value :: "uattr \<Rightarrow> elem \<Rightarrow> elem \<Rightarrow> rat" where
  "uattr_value u l r =
     (if map_of (eattrib l) (uattr_name u) = map_of (eattrib r) (uattr_name u) then 1 else 0)"

lemma unique_ratio_skip:
  "\<not> uattr_decides u l r \<Longrightarrow> unique_ratio (u # us) l r = unique_ratio us l r"
  by (cases u) (auto simp: uattr_decides_def)

lemma unique_ratio_hit:
  "uattr_decides u l r \<Longrightarrow> unique_ratio (u # us) l r = Some (uattr_value u l r)"
  by (cases u) (auto simp: uattr_decides_def uattr_value_def)

lemma unique_ratio_first:
  "\<forall>v \<in> set pre. \<not> uattr_decides v l r \<Longrightarrow> uattr_decides u l r \<Longrightarrow>
   unique_ratio (pre @ u # post) l r = Some (uattr_value u l r)"
  by (induction pre) (simp_all add: unique_ratio_skip unique_ratio_hit)

text \<open>
  C7, as stated: for every configured entry that applies and whose attribute one of the
  nodes carries, \<open>node_ratio\<close> is 1 when the values are equal and 0 otherwise. With two
  configured attributes, one equal and one different on the two nodes, both cannot hold:
  the source returns at the first entry.
\<close>

theorem node_ratio_unique_counterexample:
  "\<not> (\<forall>us lev l2r l r u. u \<in> set us \<longrightarrow> uattr_decides u l r \<longrightarrow>
        node_ratio us lev l2r l r = uattr_value u l r)"
proof
  assume a: "\<forall>us lev l2r l r u. u \<in> set us \<longrightarrow> uattr_decides u l r \<longrightarrow>
        node_ratio us lev l2r l r = uattr_value u l r"
  let ?us = "[Attr ''id'', Attr ''name'']"
  let ?l = "Elem (LeftN []) ''n'' [(''id'', ''1''), (''name'', ''x'')] None None []"
  let ?r = "Elem (RightN []) ''n'' [(''id'', ''2''), (''name'', ''x'')] None None []"
  have d: "uattr_decides (Attr ''name'') ?l ?r" by (simp add: uattr_decides_def)
  have v: "uattr_value (Attr ''name'') ?l ?r = 1" by (simp add: uattr_value_def)
  have c: "node_ratio ?us (\<lambda>c1 c2. 0) Map.empty ?l ?r = 0" by (simp add: node_ratio_def)
  from a have "\<forall>lev l2r l r u. u \<in> set ?us \<longrightarrow> uattr_decides u l r \<longrightarrow>
        node_ratio ?us lev l2r l r = uattr_value u l r"
    by (rule spec)
  then have "\<forall>l2r l r u. u \<in> set ?us \<longrightarrow> uattr_decides u l r \<longrightarrow>
        node_ratio ?us (\<lambda>c1 c2. 0) l2r l r = uattr_value u l r"
    by (rule spec)
  then have "\<forall>l r u. u \<in> set ?us \<longrightarrow> uattr_decides u l r \<longrightarrow>
        node_ratio ?us (\<lambda>c1 c2. 0) Map.empty l r = uattr_value u l r"
    by (rule spec)
  then have "\<forall>r u. u \<in> set ?us \<longrightarrow> uattr_decides u ?l r \<longrightarrow>
        node_ratio ?us (\<lambda>c1 c2. 0) Map.empty ?l r = uattr_value u ?l r"
    by (rule spec)
  then have "\<forall>u. u \<in> set ?us \<longrightarrow> uattr_decides u ?l ?r \<longrightarrow>
        node_ratio ?us (\<lambda>c1 c2. 0) Map.empty ?l ?r = uattr_value u ?l ?r"
    by (rule spec)
  then have "Attr ''name'' \<in> set ?us \<longrightarrow> uattr_decides (Attr ''name'') ?l ?r \<longrightarrow>
        node_ratio ?us (\<lambda>c1 c2. 0) Map.empty ?l ?r = uattr_value (Attr ''name'') ?l ?r"
    by (rule spec)
  with d have "node_ratio ?us (\<lambda>c1 c2. 0) Map.empty ?l ?r = uattr_value (Attr ''name'') ?l ?r"
    by simp
  with v c show False by simp
qed

text \<open>
  C7, amended: the first configured entry, in list order, that applies to the two nodes
  and whose attribute at least one of them carries decides the result: \<open>node_ratio\<close> is
  then 1 when both nodes carry the attribute with equal values and 0 otherwise, whatever
  the text distance and the match dictionary are. Independently of any deciding entry, a
  pair-form entry whose tag is not the tag of both nodes is skipped: the result on a list
  headed by such an entry is the result on the rest of the list.
\<close>

theorem node_ratio_unique_first:
  "((\<forall>v \<in> set pre. \<not> uattr_decides v l r) \<and> uattr_decides u l r \<longrightarrow>
      node_ratio (pre @ u # post) lev l2r l r = uattr_value u l r
      \<and> (uattr_value u l r = 1 \<longleftrightarrow>
           (\<exists>v. map_of (eattrib l) (uattr_name u) = Some v \<and>
                map_of (eattrib r) (uattr_name u) = Some v))
      \<and> (uattr_value u l r \<noteq> 1 \<longrightarrow> uattr_value u l r = 0))
   \<and> ((t \<noteq> etag l \<or> t \<noteq> etag r) \<longrightarrow>
        node_ratio (TagAttr t a # us) lev l2r l r = node_ratio us lev l2r l r)"
proof -
  have first: "(\<forall>v \<in> set pre. \<not> uattr_decides v l r) \<and> uattr_decides u l r \<longrightarrow>
      node_ratio (pre @ u # post) lev l2r l r = uattr_value u l r
      \<and> (uattr_value u l r = 1 \<longleftrightarrow>
           (\<exists>v. map_of (eattrib l) (uattr_name u) = Some v \<and>
                map_of (eattrib r) (uattr_name u) = Some v))
      \<and> (uattr_value u l r \<noteq> 1 \<longrightarrow> uattr_value u l r = 0)"
    by (auto simp: node_ratio_def unique_ratio_first uattr_value_def uattr_decides_def)
  have skip: "(t \<noteq> etag l \<or> t \<noteq> etag r) \<longrightarrow>
        node_ratio (TagAttr t a # us) lev l2r l r = node_ratio us lev l2r l r"
    by (auto simp: node_ratio_def)
  from first skip show ?thesis
    by (rule conjI)
qed

theorem node_ratio_unique_first_witness:
  "node_ratio [TagAttr ''m'' ''id'', Attr ''id'', Attr ''name''] (\<lambda>c1 c2. 0) Map.empty
     (Elem (LeftN []) ''n'' [(''id'', ''1''), (''name'', ''x'')] None None [])
     (Elem (RightN []) ''n'' [(''id'', ''2''), (''name'', ''x'')] None None []) = 0
   \<and> node_ratio [TagAttr ''m'' ''id''] (\<lambda>c1 c2. 0) Map.empty
       (Elem (LeftN []) ''n'' [] None None []) (Elem (RightN []) ''n'' [] None None []) =
     node_ratio [] (\<lambda>c1 c2. 0) Map.empty
       (Elem (LeftN []) ''n'' [] None None []) (Elem (RightN []) ''n'' [] None None [])
   \<and> node_ratio [] (\<lambda>c1 c2. 0) Map.empty
       (Elem (LeftN []) ''n'' [] None None []) (Elem (RightN []) ''n'' [] None None []) = 1"
proof -
  let ?l = "Elem (LeftN []) ''n'' [(''id'', ''1''), (''name'', ''x'')] None None []"
  let ?r = "Elem (RightN []) ''n'' [(''id'', ''2''), (''name'', ''x'')] None None []"
  let ?n = "Elem (LeftN []) ''n'' [] None None []"
  let ?n' = "Elem (RightN []) ''n'' [] None None []"
  have p: "\<forall>v \<in> set [TagAttr ''m'' ''id'']. \<not> uattr_decides v ?l ?r"
    by (simp add: uattr_decides_def)
  have d: "uattr_decides (Attr ''id'') ?l ?r" by (simp add: uattr_decides_def)
  have v: "uattr_value (Attr ''id'') ?l ?r = 0" by (simp add: uattr_value_def)
  from node_ratio_unique_first [of "[TagAttr ''m'' ''id'']" ?l ?r "Attr ''id''" "[Attr ''name'']"
      "\<lambda>c1 c2. 0" Map.empty "''m''" "''id''" "[]"] p d v
  have 1: "node_ratio [TagAttr ''m'' ''id'', Attr ''id'', Attr ''name''] (\<lambda>c1 c2. 0) Map.empty ?l ?r = 0"
    by simp
  from node_ratio_unique_first [of "[]" ?n ?n' "Attr ''id''" "[]"
      "\<lambda>c1 c2. 0" Map.empty "''m''" "''id''" "[]"]
  have 2: "node_ratio [TagAttr ''m'' ''id''] (\<lambda>c1 c2. 0) Map.empty ?n ?n' =
           node_ratio [] (\<lambda>c1 c2. 0) Map.empty ?n ?n'"
    by simp
  have t: "node_text ?n = []" "node_text ?n' = []"
    by (simp_all add: node_text_def text_nodes_def opt_text_def strip_def cleanup_whitespace_def)
  have 3: "node_ratio [] (\<lambda>c1 c2. 0) Map.empty ?n ?n' = 1"
    by (simp add: node_ratio_def weighted_ratio_def leaf_ratio_def child_ratio_def t)
  from 1 2 3 show ?thesis by simp
qed

section \<open>Path resolution of the formatter (formatting.py)\<close>

text \<open>
  Exceptions are values. \<open>NotFound\<close> and \<open>MultipleNodes\<close> are the two
  \<open>ValueError\<close>s that \<open>_xpath\<close> raises itself; \<open>ValueError\<close> is the one raised
  by \<open>int()\<close> or by unpacking a split of the wrong length. \<open>Detached\<close> is no Python
  exception: the model of the differ keeps only the nodes under the root of a tree, and
  an operation on a node that is not under the root (one that was removed, or a move of a
  node below itself) is marked with it.
\<close>

datatype exn =
  NotFound | MultipleNodes | ValueError | IndexError | AttributeError | KeyError | TypeError
  | Detached

definition DIFF_NS :: string where
  "DIFF_NS = ''http://namespaces.shoobx.com/diff''"

definition DELETE_NAME :: string where
  "DELETE_NAME = ''{'' @ DIFF_NS @ ''}delete''"

text \<open>
  \<open>int(s)\<close> on a string: surrounding whitespace is stripped, a sign may come first,
  and the digits may be grouped by single underscores.
\<close>

definition is_digit :: "char \<Rightarrow> bool" where
  "is_digit c \<longleftrightarrow> c \<in> set ''0123456789''"

definition digit_value :: "char \<Rightarrow> nat" where
  "digit_value c = of_char c - 48"

fun no_double_underscore :: "string \<Rightarrow> bool" where
  "no_double_underscore (a # b # cs) = (\<not> (a = CHR ''_'' \<and> b = CHR ''_'') \<and> no_double_underscore (b # cs))"
| "no_double_underscore cs = True"

definition valid_digits :: "string \<Rightarrow> bool" where
  "valid_digits b \<longleftrightarrow>
     b \<noteq> [] \<and> is_digit (hd b) \<and> is_digit (last b) \<and>
     (\<forall>c \<in> set b. is_digit c \<or> c = CHR ''_'') \<and> no_double_underscore b"

definition decimal :: "string \<Rightarrow> nat" where
  "decimal b = foldl (\<lambda>n c. 10 * n + digit_value c) 0 (filter is_digit b)"

definition py_int :: "string \<Rightarrow> int option" where
  "py_int s =
     (let t = rev (dropWhile (\<lambda>c. isspace (of_char c)) (rev (dropWhile (\<lambda>c. isspace (of_char c)) s)))
      in case t of
           [] \<Rightarrow> None
         | c # b \<Rightarrow>
             if c = CHR ''-'' then (if valid_digits b then Some (- int (decimal b)) else None)
             else if c = CHR ''+'' then (if valid_digits b then Some (int (decimal b)) else None)
             else if valid_digits t then Some (int (decimal t)) else None)"

text \<open>\<open>xs[i]\<close> for a Python list: a negative index counts from the end.\<close>

definition py_index :: "'a list \<Rightarrow> int \<Rightarrow> 'a option" where
  "py_index xs i =
     (if 0 \<le> i \<and> i < int (length xs) then Some (xs ! nat i)
      else if i < 0 \<and> - i \<le> int (length xs) then Some (xs ! nat (int (length xs) + i))
      else None)"

text \<open>\<open>s.split(c, 1)\<close> for a string that holds \<open>c\<close>, and \<open>s.split(c)\<close>.\<close>

definition split_once :: "char \<Rightarrow> string \<Rightarrow> string \<times> string" where
  "split_once c s = (takeWhile (\<lambda>x. x \<noteq> c) s, drop 1 (dropWhile (\<lambda>x. x \<noteq> c) s))"

fun split_all :: "char \<Rightarrow> string \<Rightarrow> string list" where
  "split_all c [] = [[]]"
| "split_all c (x # xs) =
     (if x = c then [] # split_all c xs
      else (case split_all c xs of [] \<Rightarrow> [[x]] | h # t \<Rightarrow> (x # h) # t))"

text \<open>
  One call of \<open>_xpath\<close> up to its recursive call: the matched node and the rest of the
  path. \<open>xp node path\<close> stands for lxml's \<open>node.xpath(path)\<close>.
\<close>

definition xpath_predicate :: "string \<Rightarrow> exn + (string \<times> int \<times> bool)" where
  "xpath_predicate path =
     (if CHR ''['' \<in> set path then
        (case split_all CHR ''['' (butlast path) of
           [name, index] \<Rightarrow>
             (case py_int index of
                None \<Rightarrow> Inl ValueError
              | Some n \<Rightarrow> Inr (name, n - 1, False))
         | _ \<Rightarrow> Inl ValueError)
      else Inr (path, 0, True))"

definition xpath_select :: "elem list \<Rightarrow> int \<Rightarrow> bool \<Rightarrow> exn + elem" where
  "xpath_select matches index multiple =
     (if index \<ge> int (length matches) then Inl NotFound
      else if length matches > 1 \<and> multiple then Inl MultipleNodes
      else (case py_index matches index of None \<Rightarrow> Inl IndexError | Some m \<Rightarrow> Inr m))"

definition xpath_head :: "char \<Rightarrow> string \<Rightarrow> bool \<times> string \<times> string" where
  "xpath_head c cs =
     (let is_root = (c = CHR ''/'');
          xpath1 = (if is_root then cs else c # cs)
      in if CHR ''/'' \<in> set xpath1 then (is_root, split_once CHR ''/'' xpath1)
         else (is_root, xpath1, []))"

definition xpath_step :: "(elem \<Rightarrow> string \<Rightarrow> elem list) \<Rightarrow> elem \<Rightarrow> string \<Rightarrow> exn + (elem \<times> string)" where
  "xpath_step xp node xpath =
     (case xpath of
        [] \<Rightarrow> Inl IndexError
      | c # cs \<Rightarrow>
          (case xpath_head c cs of
             (is_root, path, rest) \<Rightarrow>
               (case xpath_predicate path of
                  Inl e \<Rightarrow> Inl e
                | Inr (name, index, multiple) \<Rightarrow>
                    (case xpath_select
                            (filter (\<lambda>m. map_of (eattrib m) DELETE_NAME = None)
                               (xp node (if is_root then CHR ''/'' # name else name)))
                            index multiple of
                       Inl e \<Rightarrow> Inl e
                     | Inr m \<Rightarrow> Inr (m, rest)))))"

lemma split_once_shorter:
  "c \<in> set s \<Longrightarrow> length (snd (split_once c s)) < length s"
proof -
  assume "c \<in> set s"
  then have "dropWhile (\<lambda>x. x \<noteq> c) s \<noteq> []"
    by (simp add: dropWhile_eq_Nil_conv)
  then have "length (drop 1 (dropWhile (\<lambda>x. x \<noteq> c) s)) < length (dropWhile (\<lambda>x. x \<noteq> c) s)"
    by (cases "dropWhile (\<lambda>x. x \<noteq> c) s") simp_all
  also have "\<dots> \<le> length s"
    by (rule length_dropWhile_le)
  finally show ?thesis
    by (simp add: split_once_def)
qed

lemma xpath_head_shorter:
  assumes "snd (snd (xpath_head c cs)) \<noteq> []"
  shows "length (snd (snd (xpath_head c cs))) < Suc (length cs)"
proof (cases "c = CHR ''/''")
  case True
  with assms have i: "CHR ''/'' \<in> set cs"
    by (simp add: xpath_head_def Let_def split: if_splits)
  from split_once_shorter [OF i] True i show ?thesis
    by (simp add: xpath_head_def Let_def)
next
  case False
  with assms have i: "CHR ''/'' \<in> set (c # cs)"
    by (simp add: xpath_head_def Let_def split: if_splits)
  from split_once_shorter [OF i] False i show ?thesis
    by (simp add: xpath_head_def Let_def)
qed

lemma xpath_step_rest:
  "xpath_step xp node (c # cs) = Inr (m, rest) \<Longrightarrow> rest = snd (snd (xpath_head c cs))"
  by (simp add: xpath_step_def split: prod.splits sum.splits)

lemma xpath_step_shorter:
  assumes "xpath_step xp node xpath = Inr (m, rest)" "rest \<noteq> []"
  shows "length rest < length xpath"
proof (cases xpath)
  case Nil
  with assms(1) show ?thesis by (simp add: xpath_step_def)
next
  case (Cons c cs)
  with assms(1) have "rest = snd (snd (xpath_head c cs))"
    by (simp add: xpath_step_rest)
  with assms(2) xpath_head_shorter [of c cs] Cons show ?thesis
    by simp
qed

function formatter_xpath :: "(elem \<Rightarrow> string \<Rightarrow> elem list) \<Rightarrow> elem \<Rightarrow> string \<Rightarrow> exn + elem" where
  "formatter_xpath xp node xpath =
     (case xpath_step xp node xpath of
        Inl e \<Rightarrow> Inl e
      | Inr (m, rest) \<Rightarrow> if rest \<noteq> [] then formatter_xpath xp m rest else Inr m)"
  by pat_completeness auto
termination
  by (relation "measure (\<lambda>(xp, node, xpath). length xpath)") (auto dest: xpath_step_shorter)

text \<open>
  lxml's XPath for the steps the formatter hands it: a name test (or \<open>*\<close>) selects the
  children with that tag, and an absolute step selects the document element when its tag
  fits. \<open>doc\<close> is the tree the formatter resolves paths in.
\<close>

definition name_test :: "string \<Rightarrow> elem \<Rightarrow> bool" where
  "name_test name e \<longleftrightarrow> name = ''*'' \<or> etag e = name"

definition lxml_xpath :: "elem \<Rightarrow> elem \<Rightarrow> string \<Rightarrow> elem list" where
  "lxml_xpath doc node path =
     (case path of
        [] \<Rightarrow> []
      | c # name \<Rightarrow>
          if c = CHR ''/'' then filter (name_test name) [doc]
          else filter (name_test path) (echildren node))"


text \<open>
  What \<open>_xpath\<close> selects among the matches of one step once the predicate is read:
  for a position \<open>k \<ge> 1\<close> (index \<open>k - 1\<close>) it is the \<open>k\<close>-th match that is not
  marked as deleted, an error when there are fewer than \<open>k\<close>, and an error when the
  step has no predicate and matches more than one node.
\<close>

lemma xpath_select_position:
  "0 \<le> index \<Longrightarrow>
   xpath_select ms index multiple =
     (if length ms \<le> nat index then Inl NotFound
      else if 1 < length ms \<and> multiple then Inl MultipleNodes
      else Inr (ms ! nat index))"
  by (auto simp: xpath_select_def py_index_def Let_def)

definition doc_two_nodes :: elem where
  "doc_two_nodes =
     Elem (LeftN []) ''document'' [] None None
       [Elem (LeftN [0]) ''node'' [(''a'', ''v'')] None None [],
        Elem (LeftN [1]) ''node'' [] (Some [84, 101, 120, 116]) None []]"

text \<open>
  C9: on \<open><document><node a="v"/><node>Text</node></document>\<close> the path
  \<open>/document/node[0]\<close> addresses no node (positions count from 1), yet the resolution
  returns the last \<open>node\<close> element instead of raising: the index \<open>-1\<close> passes the
  bound check and then counts from the end of the match list.
\<close>

theorem xpath_position_zero_returns_last:
  "formatter_xpath (lxml_xpath doc_two_nodes) doc_two_nodes ''/document/node[0]'' =
     Inr (Elem (LeftN [1]) ''node'' [] (Some [84, 101, 120, 116]) None [])"
  by (simp add: doc_two_nodes_def xpath_step_def xpath_head_def split_once_def
      xpath_predicate_def py_int_def valid_digits_def is_digit_def decimal_def digit_value_def
      xpath_select_def py_index_def lxml_xpath_def name_test_def DELETE_NAME_def DIFF_NS_def
      isspace_def)


section \<open>The placeholder codec (placeholder.py)\<close>

datatype ttype = T_OPEN | T_CLOSE | T_SINGLE

datatype placeholder_entry =
  PlaceholderEntry (element: xml) (ttype: ttype) (close_ph: "ustring option")

text \<open>
  The maker's dictionaries are association lists in insertion order. A placeholder is a
  string of one code point. The fields of the HTML subclass are part of the record;
  \<open>html\<close> tells which \<open>get_both_placeholders\<close> the object has.
\<close>

record maker =
  text_tags :: "string list"
  formatting_tags :: "string list"
  single_formatting_tags :: "string list"
  dual_formatting_tags :: "string list"
  complex_formatting_tags :: "string list"
  html :: bool
  placeholder2tag :: "(ustring \<times> placeholder_entry) list"
  tag2placeholder :: "((xml \<times> ttype \<times> ustring option) \<times> ustring) list"
  placeholder :: nat
  diff_tags :: "(string \<times> ustring \<times> ustring) list"

definition PLACEHOLDER_START :: nat where
  "PLACEHOLDER_START = 57344"

definition INSERT_NAME :: string where
  "INSERT_NAME = ''{'' @ DIFF_NS @ ''}insert''"

text \<open>
  \<open>etree.canonicalize(element)\<close> is the C14N serialisation of the element: attributes
  in sorted order, no difference between an absent and an empty text, the tail of the
  element itself not written. Two elements have the same serialisation exactly when the
  normal forms below are equal, so the normal form stands for the string.
\<close>

definition canonical_text :: "ustring option \<Rightarrow> ustring option" where
  "canonical_text t = (case t of None \<Rightarrow> Some [] | Some s \<Rightarrow> Some s)"

fun canonical_inner :: "xml \<Rightarrow> xml" where
  "canonical_inner (Element t a x y cs) =
     Element t (sort_key fst a) (canonical_text x) (canonical_text y) (map canonical_inner cs)"

definition canonicalize :: "xml \<Rightarrow> xml" where
  "canonicalize e =
     (case canonical_inner e of Element t a x y cs \<Rightarrow> Element t a x None cs)"

definition get_placeholder :: "maker \<Rightarrow> xml \<Rightarrow> ttype \<Rightarrow> ustring option \<Rightarrow> ustring \<times> maker" where
  "get_placeholder mk e tt close =
     (let tag = canonicalize e in
      case map_of (tag2placeholder mk) (tag, tt, close) of
        Some ph \<Rightarrow> (ph, mk)
      | None \<Rightarrow>
          (let n = placeholder mk + 1;
               ph = [n];
               copy = Element (xtag e) (xattrib e) None None (xchildren e)
           in (ph, mk\<lparr>placeholder := n,
                      placeholder2tag := placeholder2tag mk @ [(ph, PlaceholderEntry copy tt close)],
                      tag2placeholder := tag2placeholder mk @ [((tag, tt, close), ph)]\<rparr>)))"

definition get_open_close :: "maker \<Rightarrow> xml \<Rightarrow> (ustring \<times> ustring) \<times> maker" where
  "get_open_close mk e =
     (case get_placeholder mk e T_CLOSE None of
        (ph_close, mk1) \<Rightarrow>
          (case get_placeholder mk1 e T_OPEN (Some ph_close) of
             (ph_open, mk2) \<Rightarrow> ((ph_open, ph_close), mk2)))"

definition new_element :: "string \<Rightarrow> xml" where
  "new_element t = Element t [] None None []"

definition get_both_placeholders :: "maker \<Rightarrow> xml \<Rightarrow> (ustring \<times> ustring) \<times> maker" where
  "get_both_placeholders mk e =
     (if html mk then
        (if xtag e \<in> set (single_formatting_tags mk) then
           (case get_placeholder mk e T_SINGLE None of (ph_single, mk1) \<Rightarrow> ((ph_single, []), mk1))
         else if xtag e \<in> set (dual_formatting_tags mk) then get_open_close mk (new_element (xtag e))
         else get_open_close mk e)
      else get_open_close mk e)"

definition PlaceholderMaker :: "string list \<Rightarrow> string list \<Rightarrow> maker" where
  "PlaceholderMaker texts formattings =
     (let mk0 = \<lparr>text_tags = texts, formatting_tags = formattings,
                  single_formatting_tags = [], dual_formatting_tags = [],
                  complex_formatting_tags = [], html = False,
                  placeholder2tag = [], tag2placeholder = [],
                  placeholder = PLACEHOLDER_START, diff_tags = []\<rparr>
      in case get_open_close mk0 (new_element INSERT_NAME) of
           ((insert_open, insert_close), mk1) \<Rightarrow>
             (case get_open_close mk1 (new_element DELETE_NAME) of
                ((delete_open, delete_close), mk2) \<Rightarrow>
                  mk2\<lparr>diff_tags := [(''insert'', insert_open, insert_close),
                                     (''delete'', delete_open, delete_close)]\<rparr>))"

definition HTMLPlaceholderMaker :: "string list \<Rightarrow> string list \<Rightarrow> string list \<Rightarrow> string list \<Rightarrow> maker" where
  "HTMLPlaceholderMaker singles duals complexes texts =
     (let mk = (PlaceholderMaker texts (singles @ duals @ complexes))
                 \<lparr>single_formatting_tags := singles, dual_formatting_tags := duals,
                  complex_formatting_tags := complexes, html := True\<rparr>
      in fold (\<lambda>t m. snd (get_both_placeholders m (new_element t))) duals mk)"

definition is_placeholder :: "maker \<Rightarrow> ustring \<Rightarrow> bool" where
  "is_placeholder mk c \<longleftrightarrow> length c = 1 \<and> map_of (placeholder2tag mk) c \<noteq> None"

definition is_formatting :: "maker \<Rightarrow> xml \<Rightarrow> bool" where
  "is_formatting mk e \<longleftrightarrow> xtag e \<in> set (formatting_tags mk)"

definition or_empty :: "ustring option \<Rightarrow> ustring" where
  "or_empty t = (case t of None \<Rightarrow> [] | Some s \<Rightarrow> s)"

subsection \<open>Encoding\<close>

text \<open>
  \<open>do_element\<close> walks the children of an element. \<open>kept\<close> are the children that stay
  (the last of them is \<open>previous_child\<close>), \<open>txt\<close> is the text of the element so far.
\<close>

fun set_last_tail :: "xml list \<Rightarrow> ustring \<Rightarrow> xml list" where
  "set_last_tail [] s = []"
| "set_last_tail [Element t a x y cs] s = [Element t a x (Some s) cs]"
| "set_last_tail (c # d # ds) s = c # set_last_tail (d # ds) s"

fun do_element :: "maker \<Rightarrow> xml \<Rightarrow> xml \<times> maker"
  and do_children :: "maker \<Rightarrow> ustring option \<Rightarrow> xml list \<Rightarrow> xml list \<Rightarrow> (ustring option \<times> xml list) \<times> maker"
where
  "do_element mk (Element t a x y cs) =
     (case do_children mk x [] cs of
        ((x', kept), mk') \<Rightarrow> (Element t a x' y kept, mk'))"
| "do_children mk txt kept [] = ((txt, kept), mk)"
| "do_children mk txt kept (child # rest) =
     (if is_formatting mk child then
        (case do_element mk child of
           (child', mk1) \<Rightarrow>
             (case get_both_placeholders mk1 child' of
                ((ph_open, ph_close), mk2) \<Rightarrow>
                  (let repl = ph_open @ or_empty (xtext child') @ ph_close @ or_empty (xtail child')
                   in if kept = [] then do_children mk2 (Some (or_empty txt @ repl)) kept rest
                      else do_children mk2 txt
                             (set_last_tail kept (or_empty (xtail (last kept)) @ repl)) rest)))
      else do_children mk txt (kept @ [child]) rest)"

text \<open>
  \<open>do_tree\<close> handles the elements named by \<open>text_tags\<close> in reverse document order:
  the subtrees of the children from the last to the first, then the element itself.
\<close>

fun do_tree_element :: "maker \<Rightarrow> xml \<Rightarrow> xml \<times> maker"
  and do_tree_children :: "maker \<Rightarrow> xml list \<Rightarrow> xml list \<times> maker"
where
  "do_tree_element mk (Element t a x y cs) =
     (case do_tree_children mk cs of
        (cs', mk1) \<Rightarrow>
          if t \<in> set (text_tags mk1) then do_element mk1 (Element t a x y cs')
          else (Element t a x y cs', mk1))"
| "do_tree_children mk [] = ([], mk)"
| "do_tree_children mk (c # cs) =
     (case do_tree_children mk cs of
        (cs', mk1) \<Rightarrow>
          (case do_tree_element mk1 c of
             (c', mk2) \<Rightarrow> (c' # cs', mk2)))"

definition do_tree :: "maker \<Rightarrow> xml \<Rightarrow> xml \<times> maker" where
  "do_tree mk tree = (if text_tags mk = [] then (tree, mk) else do_tree_element mk tree)"

subsection \<open>Decoding\<close>

text \<open>
  \<open>split_string\<close>: \<open>re.split\<close> with the class of all placeholders as a capturing
  group; the segments alternate between plain runs (possibly empty) and placeholders.
\<close>

fun split_placeholders :: "maker \<Rightarrow> ustring \<Rightarrow> ustring \<Rightarrow> ustring list" where
  "split_placeholders mk cur [] = [cur]"
| "split_placeholders mk cur (c # cs) =
     (if map_of (placeholder2tag mk) [c] \<noteq> None then cur # [c] # split_placeholders mk [] cs
      else split_placeholders mk (cur @ [c]) cs)"

definition split_string :: "maker \<Rightarrow> ustring \<Rightarrow> ustring list" where
  "split_string mk txt = split_placeholders mk [] txt"

text \<open>
  The inner loop of \<open>undo_string\<close> after an open placeholder \<open>seg\<close>: it gathers the
  segments up to the matching close placeholder. \<open>None\<close> is the \<open>IndexError\<close> of
  \<open>segments.pop(0)\<close> on the empty list.
\<close>

fun gather :: "ustring \<Rightarrow> ustring option \<Rightarrow> ustring \<Rightarrow> int \<Rightarrow> ustring \<Rightarrow> ustring list \<Rightarrow> (ustring \<times> ustring list) option" where
  "gather seg close new_text nested next_seg segments =
     (if Some next_seg \<noteq> close \<or> nested \<noteq> 0 then
        (case segments of
           [] \<Rightarrow> None
         | s # rest \<Rightarrow>
             gather seg close (new_text @ next_seg)
               (if next_seg = seg then nested + 1
                else if Some next_seg = close then nested - 1 else nested)
               s rest)
      else Some (new_text, segments))"

fun append_child :: "xml \<Rightarrow> xml \<Rightarrow> xml" where
  "append_child (Element t a x y cs) c = Element t a x y (cs @ [c])"

fun set_text :: "xml \<Rightarrow> ustring option \<Rightarrow> xml" where
  "set_text (Element t a x y cs) s = Element t a s y cs"

fun set_tail :: "xml \<Rightarrow> ustring option \<Rightarrow> xml" where
  "set_tail (Element t a x y cs) s = Element t a x s cs"

fun set_children :: "xml \<Rightarrow> xml list \<Rightarrow> xml" where
  "set_children (Element t a x y cs) ds = Element t a x y ds"

definition truthy :: "ustring option \<Rightarrow> bool" where
  "truthy t \<longleftrightarrow> t \<noteq> None \<and> t \<noteq> Some []"

text \<open>
  The result of a call is \<open>None\<close> when the fuel runs out, \<open>Some (Inl e)\<close> when the
  source raises \<open>e\<close>, and \<open>Some (Inr v)\<close> when it returns \<open>v\<close>; \<open>seq\<close> runs one
  call after another.
\<close>

definition seq :: "(exn + 'a) option \<Rightarrow> ('a \<Rightarrow> (exn + 'b) option) \<Rightarrow> (exn + 'b) option" where
  "seq m f = (case m of None \<Rightarrow> None | Some (Inl e) \<Rightarrow> Some (Inl e) | Some (Inr v) \<Rightarrow> f v)"

text \<open>
  One round of the outer loop of \<open>undo_string\<close> on the segment \<open>seg\<close>: \<open>result\<close> is
  the wrapper element and \<open>has\<close> tells whether the variable \<open>element\<close> is set; it is
  then the last child of the wrapper. \<open>undo_el\<close> is the call of \<open>undo_element\<close> and
  \<open>continue\<close> the rest of the loop.
\<close>

definition set_element_tail :: "xml \<Rightarrow> ustring \<Rightarrow> xml" where
  "set_element_tail result seg =
     set_children result
       (butlast (xchildren result) @
        [set_tail (last (xchildren result))
           (if truthy (xtail (last (xchildren result))) then xtail (last (xchildren result))
            else Some seg)])"

definition undo_segment ::
  "(xml \<Rightarrow> (exn + xml \<times> xml list) option) \<Rightarrow>
   (ustring list \<Rightarrow> xml \<Rightarrow> bool \<Rightarrow> (exn + xml) option) \<Rightarrow>
   maker \<Rightarrow> ustring \<Rightarrow> ustring list \<Rightarrow> xml \<Rightarrow> bool \<Rightarrow> (exn + xml) option"
where
  "undo_segment undo_el continue mk seg segments result has =
     (if seg = [] then continue segments result has
      else if is_placeholder mk seg then
        (case map_of (placeholder2tag mk) seg of
           None \<Rightarrow> Some (Inl KeyError)
         | Some entry \<Rightarrow>
             if ttype entry = T_OPEN then
               (case segments of
                  [] \<Rightarrow> Some (Inl IndexError)
                | next_seg # segments1 \<Rightarrow>
                    (case gather seg (close_ph entry) [] 0 next_seg segments1 of
                       None \<Rightarrow> Some (Inl IndexError)
                     | Some (new_text, segments2) \<Rightarrow>
                         seq (undo_el (set_text (element entry) (Some new_text)))
                           (\<lambda>(el, sibs). continue segments2 (append_child result el) True)))
             else if ttype entry = T_SINGLE then
               continue segments (append_child result (element entry)) True
             else continue segments result has)
      else if has then continue segments (set_element_tail result seg) has
      else continue segments
             (set_text result (if truthy (xtext result) then xtext result else Some seg)) has)"

text \<open>
  The body of \<open>undo_element\<close>. It returns the element and the siblings it has inserted
  after it in its parent; \<open>has_parent\<close> tells whether the element has one.
  \<open>undo_str\<close> is the call of \<open>undo_string\<close>; \<open>undo_wr\<close> is the loop over the children
  of a wrapper, and \<open>undo_ch\<close> the loop over the children of the element.
\<close>

definition undo_text ::
  "(ustring \<Rightarrow> (exn + xml) option) \<Rightarrow> (xml list \<Rightarrow> (exn + xml list) option) \<Rightarrow> xml \<Rightarrow> (exn + xml) option"
where
  "undo_text undo_str undo_wr elem =
     (if truthy (xtext elem) then
        seq (undo_str (or_empty (xtext elem)))
          (\<lambda>content.
             if xtext elem \<noteq> xtext content then
               seq (undo_wr (xchildren content))
                 (\<lambda>new. Some (Inr (set_children (set_text elem (xtext content))
                                      (new @ xchildren elem))))
             else Some (Inr elem))
      else Some (Inr elem))"

definition undo_tail ::
  "(ustring \<Rightarrow> (exn + xml) option) \<Rightarrow> (xml list \<Rightarrow> (exn + xml list) option) \<Rightarrow> bool \<Rightarrow> xml \<Rightarrow>
   (exn + xml \<times> xml list) option"
where
  "undo_tail undo_str undo_wr has_parent elem =
     (if truthy (xtail elem) then
        seq (undo_str (or_empty (xtail elem)))
          (\<lambda>content.
             if xtail elem \<noteq> xtext content then
               (if has_parent then
                  seq (undo_wr (xchildren content))
                    (\<lambda>sibs. Some (Inr (set_tail elem (xtext content), sibs)))
                else Some (Inl AttributeError))
             else Some (Inr (elem, [])))
      else Some (Inr (elem, [])))"

definition undo_element_body ::
  "(ustring \<Rightarrow> (exn + xml) option) \<Rightarrow> (xml list \<Rightarrow> (exn + xml list) option) \<Rightarrow>
   (xml list \<Rightarrow> (exn + xml list) option) \<Rightarrow> maker \<Rightarrow> bool \<Rightarrow> xml \<Rightarrow> (exn + xml \<times> xml list) option"
where
  "undo_element_body undo_str undo_wr undo_ch mk has_parent elem =
     (if placeholder2tag mk = [] then Some (Inr (elem, []))
      else
        seq (undo_text undo_str undo_wr elem)
          (\<lambda>elem1.
             seq (undo_ch (xchildren elem1))
               (\<lambda>cs. undo_tail undo_str undo_wr has_parent (set_children elem1 cs))))"

text \<open>
  The loop over a wrapper's children drops the siblings a child inserts (they are
  inserted into the wrapper, behind the iteration, and stay there); the loop over an
  element's own children keeps them.
\<close>

function undo_segments :: "nat \<Rightarrow> maker \<Rightarrow> ustring list \<Rightarrow> xml \<Rightarrow> bool \<Rightarrow> (exn + xml) option"
  and undo_string :: "nat \<Rightarrow> maker \<Rightarrow> ustring \<Rightarrow> (exn + xml) option"
  and undo_element :: "nat \<Rightarrow> maker \<Rightarrow> bool \<Rightarrow> xml \<Rightarrow> (exn + xml \<times> xml list) option"
  and undo_wrapped :: "nat \<Rightarrow> maker \<Rightarrow> xml list \<Rightarrow> (exn + xml list) option"
  and undo_children :: "nat \<Rightarrow> maker \<Rightarrow> xml list \<Rightarrow> (exn + xml list) option"
where
  "undo_segments 0 mk segments result has = None"
| "undo_segments (Suc n) mk segments result has =
     (case segments of
        [] \<Rightarrow> Some (Inr result)
      | seg # rest \<Rightarrow>
          undo_segment (undo_element n mk False) (undo_segments n mk) mk seg rest result has)"
| "undo_string 0 mk txt = None"
| "undo_string (Suc n) mk txt = undo_segments n mk (split_string mk txt) (new_element ''wrap'') False"
| "undo_element 0 mk has_parent elem = None"
| "undo_element (Suc n) mk has_parent elem =
     undo_element_body (undo_string n mk) (undo_wrapped n mk) (undo_children n mk) mk has_parent elem"
| "undo_wrapped 0 mk cs = None"
| "undo_wrapped (Suc n) mk cs =
     (case cs of
        [] \<Rightarrow> Some (Inr [])
      | c # rest \<Rightarrow>
          seq (undo_element n mk True c)
            (\<lambda>(c', sibs). seq (undo_wrapped n mk rest) (\<lambda>cs'. Some (Inr (c' # cs')))))"
| "undo_children 0 mk cs = None"
| "undo_children (Suc n) mk cs =
     (case cs of
        [] \<Rightarrow> Some (Inr [])
      | c # rest \<Rightarrow>
          seq (undo_element n mk True c)
            (\<lambda>(c', sibs). seq (undo_children n mk rest) (\<lambda>cs'. Some (Inr (c' # sibs @ cs')))))"
  by pat_completeness auto
termination
  by (relation "measure (case_sum (case_sum fst fst) (case_sum fst (case_sum fst fst)))") auto

definition undo_tree :: "nat \<Rightarrow> maker \<Rightarrow> xml \<Rightarrow> (exn + xml) option" where
  "undo_tree n mk tree =
     (case undo_element n mk False tree of
        None \<Rightarrow> None
      | Some (Inl e) \<Rightarrow> Some (Inl e)
      | Some (Inr (t, sibs)) \<Rightarrow> Some (Inr t))"


subsection \<open>Decoding an unbalanced string\<close>

lemma PlaceholderMaker_placeholder2tag:
  "placeholder2tag (PlaceholderMaker tt ft) =
     [([57345], PlaceholderEntry (new_element INSERT_NAME) T_CLOSE None),
      ([57346], PlaceholderEntry (new_element INSERT_NAME) T_OPEN (Some [57345])),
      ([57347], PlaceholderEntry (new_element DELETE_NAME) T_CLOSE None),
      ([57348], PlaceholderEntry (new_element DELETE_NAME) T_OPEN (Some [57347]))]"
  by (simp add: PlaceholderMaker_def get_open_close_def get_placeholder_def canonicalize_def
      canonical_text_def new_element_def PLACEHOLDER_START_def INSERT_NAME_def DELETE_NAME_def
      DIFF_NS_def Let_def)

text \<open>
  C10: in every freshly made \<open>PlaceholderMaker\<close> the code point \<open>0xE002\<close> is the open
  placeholder of \<open>diff:insert\<close> and \<open>0xE001\<close> its close placeholder. On the string
  that holds only the open placeholder, \<open>undo_string\<close> raises \<open>IndexError\<close> (the
  \<open>pop\<close> from the exhausted segment list) instead of returning a wrapper element.
\<close>

theorem undo_string_unbalanced_raises:
  "map_of (placeholder2tag (PlaceholderMaker tt ft)) [57346] =
     Some (PlaceholderEntry (new_element INSERT_NAME) T_OPEN (Some [57345]))
   \<and> 57345 \<notin> set [57346 :: nat]
   \<and> undo_string (Suc (Suc (Suc n))) (PlaceholderMaker tt ft) [57346] = Some (Inl IndexError)"
  by (simp add: PlaceholderMaker_placeholder2tag split_string_def undo_segment_def
      is_placeholder_def)


section \<open>The left and right trees of the differ\<close>

text \<open>
  A reference to a node is its identity; \<open>None\<close> is Python's \<open>None\<close>. The tree under
  the root is searched for the node that has the identity. The identities of a tree are
  distinct, so the first hit is the node.
\<close>

fun find_elem :: "nid \<Rightarrow> elem \<Rightarrow> elem option"
  and find_elems :: "nid \<Rightarrow> elem list \<Rightarrow> elem option"
where
  "find_elem n (Elem i t a x y cs) = (if i = n then Some (Elem i t a x y cs) else find_elems n cs)"
| "find_elems n [] = None"
| "find_elems n (c # cs) = (case find_elem n c of Some e \<Rightarrow> Some e | None \<Rightarrow> find_elems n cs)"

fun parent_elem :: "nid \<Rightarrow> elem \<Rightarrow> elem option"
  and parent_elems :: "nid \<Rightarrow> elem list \<Rightarrow> elem option"
where
  "parent_elem n (Elem i t a x y cs) =
     (if n \<in> set (map eid cs) then Some (Elem i t a x y cs) else parent_elems n cs)"
| "parent_elems n [] = None"
| "parent_elems n (c # cs) = (case parent_elem n c of Some e \<Rightarrow> Some e | None \<Rightarrow> parent_elems n cs)"

definition getparent :: "elem \<Rightarrow> nid \<Rightarrow> nid option" where
  "getparent tree n = map_option eid (parent_elem n tree)"

fun update_elem :: "nid \<Rightarrow> (elem \<Rightarrow> elem) \<Rightarrow> elem \<Rightarrow> elem" where
  "update_elem n f (Elem i t a x y cs) =
     (if i = n then f (Elem i t a x y cs) else Elem i t a x y (map (update_elem n f) cs))"

text \<open>\<open>parent.remove(node)\<close>: the node leaves the tree with its subtree and its tail.\<close>

fun remove_elem :: "nid \<Rightarrow> elem \<Rightarrow> elem" where
  "remove_elem n (Elem i t a x y cs) =
     Elem i t a x y (map (remove_elem n) (filter (\<lambda>c. eid c \<noteq> n) cs))"

text \<open>\<open>target.insert(pos, node)\<close>: a position past the end appends.\<close>

fun insert_child :: "nat \<Rightarrow> elem \<Rightarrow> elem \<Rightarrow> elem" where
  "insert_child pos c (Elem i t a x y cs) = Elem i t a x y (take pos cs @ [c] @ drop pos cs)"

fun set_etag :: "string \<Rightarrow> elem \<Rightarrow> elem" where
  "set_etag s (Elem i t a x y cs) = Elem i s a x y cs"

fun set_eattrib :: "attrs \<Rightarrow> elem \<Rightarrow> elem" where
  "set_eattrib b (Elem i t a x y cs) = Elem i t b x y cs"

fun set_etext :: "ustring option \<Rightarrow> elem \<Rightarrow> elem" where
  "set_etext s (Elem i t a x y cs) = Elem i t a s y cs"

fun set_etail :: "ustring option \<Rightarrow> elem \<Rightarrow> elem" where
  "set_etail s (Elem i t a x y cs) = Elem i t a x s cs"

subsection \<open>Traversals (utils.py)\<close>

fun post_order_traverse :: "elem \<Rightarrow> elem list" where
  "post_order_traverse (Elem i t a x y cs) =
     concat (map post_order_traverse cs) @ [Elem i t a x y cs]"

fun reverse_post_order_traverse :: "elem \<Rightarrow> elem list" where
  "reverse_post_order_traverse (Elem i t a x y cs) =
     concat (map reverse_post_order_traverse (rev cs)) @ [Elem i t a x y cs]"

text \<open>\<open>breadth_first_traverse\<close>: the queue loop.\<close>

function bft_queue :: "elem list \<Rightarrow> elem list" where
  "bft_queue [] = []"
| "bft_queue (item # queue) = item # bft_queue (queue @ echildren item)"
  by pat_completeness auto
termination
proof (relation "measure (\<lambda>q. sum_list (map size q))")
  show "wf (measure (\<lambda>q. sum_list (map size q)))" by simp
next
  fix item :: elem and queue :: "elem list"
  have "sum_list (map size (echildren item)) < size item"
    by (cases item) (simp add: size_list_conv_sum_list)
  then show "(queue @ echildren item, item # queue) \<in> measure (\<lambda>q. sum_list (map size q))"
    by simp
qed

definition breadth_first_traverse :: "elem \<Rightarrow> elem list" where
  "breadth_first_traverse node = bft_queue [node]"

subsection \<open>Paths of the edit script (utils.getpath)\<close>

fun digits :: "nat \<Rightarrow> string" where
  "digits n = (if n < 10 then [char_of (48 + n)] else digits (n div 10) @ [char_of (48 + n mod 10)])"

text \<open>
  lxml writes a step as the tag, with the position among the siblings of the same tag
  when there is more than one of them.
\<close>

definition path_step :: "elem list \<Rightarrow> elem \<Rightarrow> elem list \<Rightarrow> string" where
  "path_step pre c post =
     (let same = filter (\<lambda>s. etag s = etag c) in
      if same pre = [] \<and> same post = [] then etag c
      else etag c @ ''['' @ digits (Suc (length (same pre))) @ '']'')"

fun path_below :: "nid \<Rightarrow> elem \<Rightarrow> string option"
  and path_among :: "nid \<Rightarrow> elem list \<Rightarrow> elem list \<Rightarrow> string option"
where
  "path_below n (Elem i t a x y cs) = (if i = n then Some [] else path_among n [] cs)"
| "path_among n pre [] = None"
| "path_among n pre (c # post) =
     (case path_below n c of
        Some p \<Rightarrow> Some (''/'' @ path_step pre c post @ p)
      | None \<Rightarrow> path_among n (pre @ [c]) post)"

definition getpath :: "elem \<Rightarrow> nid option \<Rightarrow> exn + string" where
  "getpath tree node =
     (case node of
        None \<Rightarrow> Inl AttributeError
      | Some n \<Rightarrow>
          (case path_below n tree of
             None \<Rightarrow> Inl Detached
           | Some p \<Rightarrow>
               (let xpath = ''/'' @ etag tree @ p
                in Inr (if last xpath \<noteq> CHR '']'' then xpath @ ''[1]'' else xpath))))"

subsection \<open>Edit actions (actions.py)\<close>

datatype action =
    InsertNode string string nat
  | DeleteNode string
  | MoveNode string string nat
  | RenameNode string string
  | UpdateTextIn string "ustring option"
  | UpdateTextAfter string "ustring option"
  | InsertAttrib string string string
  | DeleteAttrib string string
  | UpdateAttrib string string string


subsection \<open>Longest common subsequence (utils.py)\<close>

text \<open>
  A call either raises or returns; \<open>bind\<close> runs one call after another.
\<close>

definition bind :: "exn + 'a \<Rightarrow> ('a \<Rightarrow> exn + 'b) \<Rightarrow> exn + 'b" where
  "bind m f = (case m of Inl e \<Rightarrow> Inl e | Inr v \<Rightarrow> f v)"

definition lookup :: "('k \<rightharpoonup> 'v) \<Rightarrow> 'k \<Rightarrow> exn + 'v" where
  "lookup m k = (case m k of None \<Rightarrow> Inl KeyError | Some v \<Rightarrow> Inr v)"

definition index :: "'a list \<Rightarrow> int \<Rightarrow> exn + 'a" where
  "index xs i = (case py_index xs i of None \<Rightarrow> Inl IndexError | Some v \<Rightarrow> Inr v)"

definition common_prefix :: "('a \<Rightarrow> 'b \<Rightarrow> bool) \<Rightarrow> 'a list \<Rightarrow> 'b list \<Rightarrow> nat" where
  "common_prefix eqfn xs ys = length (takeWhile (\<lambda>(x, y). eqfn x y) (zip xs ys))"

type_synonym history = "(int \<times> int) list"

text \<open>The inner \<open>while\<close> loop that follows a diagonal while the items are equal.\<close>

function snake ::
  "('a \<Rightarrow> 'b \<Rightarrow> bool) \<Rightarrow> 'a list \<Rightarrow> 'b list \<Rightarrow> int \<Rightarrow> int \<Rightarrow> int \<Rightarrow> history \<Rightarrow> exn + (int \<times> int \<times> history)"
where
  "snake eqfn ls rs start x y hist =
     (if x < int (length ls) \<and> y < int (length rs) then
        bind (index ls x) (\<lambda>a.
        bind (index rs y) (\<lambda>b.
          if eqfn a b then snake eqfn ls rs start (x + 1) (y + 1) (hist @ [(x + start, y + start)])
          else Inr (x, y, hist)))
      else Inr (x, y, hist))"
  by pat_completeness auto
termination
  by (relation "measure (\<lambda>(eqfn, ls, rs, start, x, y, hist). nat (int (length ls) - x))") auto

text \<open>
  The choice between going down and going left on diagonal \<open>k\<close>; a missing key of
  \<open>furthest\<close> is a \<open>KeyError\<close>.
\<close>

definition lcs_move :: "(int \<rightharpoonup> int \<times> history) \<Rightarrow> int \<Rightarrow> int \<Rightarrow> exn + (int \<times> history)" where
  "lcs_move furthest d k =
     (if k = - d then lookup furthest (k + 1)
      else if k \<noteq> d then
        bind (lookup furthest (k - 1)) (\<lambda>(xa, ha).
        bind (lookup furthest (k + 1)) (\<lambda>(xb, hb).
          if xa < xb then Inr (xb, hb) else Inr (xa + 1, ha)))
      else bind (lookup furthest (k - 1)) (\<lambda>(xa, ha). Inr (xa + 1, ha)))"

text \<open>
  The loop over \<open>k\<close> for one \<open>d\<close>: \<open>Inl\<close> of the result when the loop returns the
  history, \<open>Inr\<close> of the updated \<open>furthest\<close> when it runs to its end.
\<close>

function lcs_k ::
  "('a \<Rightarrow> 'b \<Rightarrow> bool) \<Rightarrow> 'a list \<Rightarrow> 'b list \<Rightarrow> int \<Rightarrow> int \<Rightarrow> int \<Rightarrow> (int \<rightharpoonup> int \<times> history) \<Rightarrow>
   exn + (history + (int \<rightharpoonup> int \<times> history))"
where
  "lcs_k eqfn ls rs start d k furthest =
     (if k > d then Inr (Inr furthest)
      else
        bind (lcs_move furthest d k) (\<lambda>(x0, hist0).
        bind (snake eqfn ls rs start x0 (x0 - k) hist0) (\<lambda>(x, y, hist).
          if x \<ge> int (length ls) \<and> y \<ge> int (length rs) then Inr (Inl hist)
          else lcs_k eqfn ls rs start d (k + 2) (furthest(k \<mapsto> (x, hist))))))"
  by pat_completeness auto
termination
  by (relation "measure (\<lambda>(eqfn, ls, rs, start, d, k, furthest). nat (d - k + 1))") auto

text \<open>
  The loop over \<open>d\<close>. When it runs to its end the source returns \<open>None\<close>, and the
  caller, which iterates over the result, raises \<open>TypeError\<close>.
\<close>

function lcs_d ::
  "('a \<Rightarrow> 'b \<Rightarrow> bool) \<Rightarrow> 'a list \<Rightarrow> 'b list \<Rightarrow> int \<Rightarrow> int \<Rightarrow> (int \<rightharpoonup> int \<times> history) \<Rightarrow> exn + history"
where
  "lcs_d eqfn ls rs start d furthest =
     (if d > int (length ls) + int (length rs) then Inl TypeError
      else
        bind (lcs_k eqfn ls rs start d (- d) furthest) (\<lambda>r.
          case r of
            Inl hist \<Rightarrow> Inr hist
          | Inr furthest' \<Rightarrow> lcs_d eqfn ls rs start (d + 1) furthest'))"
  by pat_completeness auto
termination
  by (relation "measure (\<lambda>(eqfn, ls, rs, start, d, furthest).
        nat (int (length ls) + int (length rs) + 1 - d))") auto

definition longest_common_subsequence ::
  "('a \<Rightarrow> 'b \<Rightarrow> bool) \<Rightarrow> 'a list \<Rightarrow> 'b list \<Rightarrow> exn + history"
where
  "longest_common_subsequence eqfn left_sequence right_sequence =
     (let lslen = length left_sequence;
          rslen = length right_sequence;
          start = common_prefix eqfn left_sequence right_sequence;
          trimmed = common_prefix eqfn (rev (drop start left_sequence)) (rev (drop start right_sequence));
          lend = lslen - trimmed;
          rend = rslen - trimmed;
          ls = take (lend - start) (drop start left_sequence);
          rs = take (rend - start) (drop start right_sequence)
      in if length ls + length rs = 0 then Inr (map (\<lambda>e. (int e, int e)) [0..<lslen])
         else
           bind (lcs_d eqfn ls rs (int start) 0 [1 \<mapsto> (0, [])]) (\<lambda>hist.
             Inr (map (\<lambda>e. (int e, int e)) [0..<start] @ hist @
                  zip (map int [lend..<lslen]) (map int [rend..<rslen]))))"

section \<open>The matcher (diff.py)\<close>

record config =
  F :: rat
  uniqueattrs :: "uattr list"
  fast_match :: bool

text \<open>
  The state of a \<open>Differ\<close> after \<open>set_trees\<close>. A partner stored in a dictionary is a
  reference, which may be \<open>None\<close>.
\<close>

record differ =
  left :: elem
  right :: elem
  matches :: "(nid option \<times> nid option) list"
  l2rmap :: "pykey \<rightharpoonup> nid option"
  r2lmap :: "pykey \<rightharpoonup> nid option"
  inorder :: "nid set"

definition set_trees :: "xml \<Rightarrow> xml \<Rightarrow> differ" where
  "set_trees l r =
     \<lparr>left = label_elem LeftN [] l, right = label_elem RightN [] r,
      matches = [], l2rmap = Map.empty, r2lmap = Map.empty, inorder = {}\<rparr>"

definition append_match :: "nid option \<Rightarrow> nid option \<Rightarrow> differ \<Rightarrow> differ" where
  "append_match lnode rnode st =
     st\<lparr>l2rmap := (l2rmap st)(Id lnode \<mapsto> rnode),
        r2lmap := (r2lmap st)(Id rnode \<mapsto> lnode),
        matches := matches st @ [(lnode, rnode)]\<rparr>"

definition remove_match :: "nid option \<Rightarrow> nid option \<Rightarrow> differ \<Rightarrow> exn + differ" where
  "remove_match lnode rnode st =
     (if l2rmap st (Id lnode) = None then Inl KeyError
      else if r2lmap st (Id rnode) = None then Inl KeyError
      else if (lnode, rnode) \<notin> set (matches st) then Inl ValueError
      else Inr (st\<lparr>l2rmap := (l2rmap st)(Id lnode := None),
                    r2lmap := (r2lmap st)(Id rnode := None),
                    matches := remove1 (lnode, rnode) (matches st)\<rparr>))"

text \<open>
  The scan for the best candidate: the first node with the highest ratio above
  \<open>max_match\<close>, stopping at a ratio of 1.
\<close>

fun best_match :: "(elem \<Rightarrow> rat) \<Rightarrow> elem list \<Rightarrow> rat \<Rightarrow> elem option \<Rightarrow> rat \<times> elem option" where
  "best_match ratio [] max_match match_node = (max_match, match_node)"
| "best_match ratio (node # nodes) max_match match_node =
     (let m = ratio node;
          max_match' = (if m > max_match then m else max_match);
          match_node' = (if m > max_match then Some node else match_node)
      in if m = 1 then (max_match', match_node')
         else best_match ratio nodes max_match' match_node')"

definition ratio_of :: "config \<Rightarrow> (ustring \<Rightarrow> ustring \<Rightarrow> nat) \<Rightarrow> differ \<Rightarrow> elem \<Rightarrow> elem \<Rightarrow> rat" where
  "ratio_of cfg lev st l r = node_ratio (uniqueattrs cfg) lev (l2rmap st) l r"

text \<open>The greedy pass over the left nodes.\<close>

fun match_greedy ::
  "config \<Rightarrow> (ustring \<Rightarrow> ustring \<Rightarrow> nat) \<Rightarrow> elem list \<Rightarrow> elem list \<Rightarrow> differ \<Rightarrow> differ"
where
  "match_greedy cfg lev [] rnodes st = st"
| "match_greedy cfg lev (lnode # lnodes) rnodes st =
     (case best_match (ratio_of cfg lev st lnode) rnodes 0 None of
        (max_match, match_node) \<Rightarrow>
          if max_match \<ge> F cfg then
            match_greedy cfg lev lnodes
              (case match_node of None \<Rightarrow> rnodes | Some m \<Rightarrow> remove1 m rnodes)
              (append_match (Some (eid lnode)) (map_option eid match_node) st)
          else match_greedy cfg lev lnodes rnodes st)"

text \<open>
  The fast pass: the pairs of a longest common subsequence are registered, then the
  matched nodes are popped from both lists, last pair first.
\<close>

fun append_matches :: "elem list \<Rightarrow> elem list \<Rightarrow> history \<Rightarrow> differ \<Rightarrow> exn + differ" where
  "append_matches lnodes rnodes [] st = Inr st"
| "append_matches lnodes rnodes ((left_match, right_match) # ms) st =
     bind (index lnodes left_match) (\<lambda>l.
     bind (index rnodes right_match) (\<lambda>r.
       append_matches lnodes rnodes ms (append_match (Some (eid l)) (Some (eid r)) st)))"

definition pop :: "'a list \<Rightarrow> int \<Rightarrow> exn + 'a list" where
  "pop xs i =
     (if 0 \<le> i \<and> i < int (length xs) then Inr (take (nat i) xs @ drop (Suc (nat i)) xs)
      else if i < 0 \<and> - i \<le> int (length xs) then
        Inr (take (nat (int (length xs) + i)) xs @ drop (Suc (nat (int (length xs) + i))) xs)
      else Inl IndexError)"

fun pop_matches :: "history \<Rightarrow> elem list \<Rightarrow> elem list \<Rightarrow> exn + (elem list \<times> elem list)" where
  "pop_matches [] lnodes rnodes = Inr (lnodes, rnodes)"
| "pop_matches ((left_match, right_match) # ms) lnodes rnodes =
     bind (pop lnodes left_match) (\<lambda>lnodes'.
     bind (pop rnodes right_match) (\<lambda>rnodes'.
       pop_matches ms lnodes' rnodes'))"

definition match_fast ::
  "config \<Rightarrow> (ustring \<Rightarrow> ustring \<Rightarrow> nat) \<Rightarrow> elem list \<Rightarrow> elem list \<Rightarrow> differ \<Rightarrow>
   exn + (elem list \<times> elem list \<times> differ)"
where
  "match_fast cfg lev lnodes rnodes st =
     bind (longest_common_subsequence (\<lambda>x y. ratio_of cfg lev st x y \<ge> F cfg) lnodes rnodes) (\<lambda>ms.
     bind (append_matches lnodes rnodes ms st) (\<lambda>st'.
     bind (pop_matches (rev ms) lnodes rnodes) (\<lambda>(lnodes', rnodes').
       Inr (lnodes', rnodes', st'))))"

text \<open>
  The top-down pass. \<open>elem_children\<close> are the children of a referenced node; the model
  keeps only the nodes under the root, and a reference to any other node has no children.
\<close>

definition elem_children :: "elem \<Rightarrow> nid \<Rightarrow> elem list" where
  "elem_children tree n = (case find_elem n tree of None \<Rightarrow> [] | Some e \<Rightarrow> echildren e)"

fun prune_matched :: "differ \<Rightarrow> elem list \<Rightarrow> elem list \<Rightarrow> elem list \<Rightarrow> elem list \<times> elem list" where
  "prune_matched st [] lchilds rchilds = (lchilds, rchilds)"
| "prune_matched st (rchild # rest) lchilds rchilds =
     (case r2lmap st (Id (Some (eid rchild))) of
        Some (Some l) \<Rightarrow>
          (case find (\<lambda>c. eid c = l) lchilds of
             Some lc \<Rightarrow> prune_matched st rest (remove1 lc lchilds) (remove1 rchild rchilds)
           | None \<Rightarrow> prune_matched st rest lchilds rchilds)
      | _ \<Rightarrow> prune_matched st rest lchilds rchilds)"

definition rematch :: "nid option \<Rightarrow> elem \<Rightarrow> differ \<Rightarrow> exn + differ" where
  "rematch match_node rchild st =
     bind (case r2lmap st (Id (Some (eid rchild))) of
             None \<Rightarrow> Inr st
           | Some l \<Rightarrow> remove_match l (Some (eid rchild)) st) (\<lambda>st1.
     bind (case l2rmap st1 (Id match_node) of
             None \<Rightarrow> Inr st1
           | Some r \<Rightarrow> remove_match match_node r st1) (\<lambda>st2.
       Inr (append_match match_node (Some (eid rchild)) st2)))"

fun match_children ::
  "config \<Rightarrow> (ustring \<Rightarrow> ustring \<Rightarrow> nat) \<Rightarrow> elem list \<Rightarrow> elem list \<Rightarrow> differ \<Rightarrow> exn + differ"
where
  "match_children cfg lev lchilds [] st = Inr st"
| "match_children cfg lev lchilds (rchild # rchilds) st =
     (case best_match (\<lambda>lchild. ratio_of cfg lev st lchild rchild) lchilds 0 None of
        (max_match, match_node) \<Rightarrow>
          if max_match \<ge> F cfg then
            bind (rematch (map_option eid match_node) rchild st)
              (match_children cfg lev lchilds rchilds)
          else match_children cfg lev lchilds rchilds st)"

definition match_below :: "config \<Rightarrow> (ustring \<Rightarrow> ustring \<Rightarrow> nat) \<Rightarrow> elem \<Rightarrow> differ \<Rightarrow> exn + differ" where
  "match_below cfg lev rnode st =
     (case r2lmap st (Id (Some (eid rnode))) of
        None \<Rightarrow> Inr st
      | Some lnode \<Rightarrow>
          if echildren rnode = [] then Inr st
          else
            (case lnode of
               None \<Rightarrow> Inl AttributeError
             | Some l \<Rightarrow>
                 (case prune_matched st (echildren rnode) (elem_children (left st) l) (echildren rnode) of
                    (lchilds, rchilds) \<Rightarrow> match_children cfg lev lchilds rchilds st)))"

fun match_top_down ::
  "config \<Rightarrow> (ustring \<Rightarrow> ustring \<Rightarrow> nat) \<Rightarrow> elem list \<Rightarrow> differ \<Rightarrow> exn + differ"
where
  "match_top_down cfg lev [] st = Inr st"
| "match_top_down cfg lev (rnode # rnodes) st =
     bind (match_below cfg lev rnode st) (match_top_down cfg lev rnodes)"

definition match_trees :: "config \<Rightarrow> (ustring \<Rightarrow> ustring \<Rightarrow> nat) \<Rightarrow> differ \<Rightarrow> exn + differ" where
  "match_trees cfg lev st =
     (let lnodes = remove1 (left st) (post_order_traverse (left st));
          rnodes = remove1 (right st) (post_order_traverse (right st))
      in bind (if fast_match cfg then match_fast cfg lev lnodes rnodes st
               else Inr (lnodes, rnodes, st)) (\<lambda>(lnodes', rnodes', st1).
         bind (match_top_down cfg lev (breadth_first_traverse (right st))
                 (match_greedy cfg lev lnodes' rnodes' st1)) (\<lambda>st2.
           Inr (append_match (Some (eid (left st))) (Some (eid (right st))) st2))))"


section \<open>The edit script generator (diff.py)\<close>

definition deref :: "elem \<Rightarrow> nid option \<Rightarrow> exn + elem" where
  "deref tree node =
     (case node of
        None \<Rightarrow> Inl AttributeError
      | Some n \<Rightarrow> (case find_elem n tree of None \<Rightarrow> Inl Detached | Some e \<Rightarrow> Inr e))"

definition update_node_tag :: "nid \<Rightarrow> elem \<Rightarrow> differ \<Rightarrow> exn + (action list \<times> differ)" where
  "update_node_tag l r st =
     bind (deref (left st) (Some l)) (\<lambda>le.
       if etag le \<noteq> etag r then
         bind (getpath (left st) (Some l)) (\<lambda>left_xpath.
           Inr ([RenameNode left_xpath (etag r)],
                st\<lparr>left := update_elem l (set_etag (etag r)) (left st)\<rparr>))
       else Inr ([], st))"

text \<open>
  \<open>update_node_attr\<close>: the three loops over the sorted keys. The attribute
  dictionaries have unique keys, so the value of a key of the right node is the value
  paired with it.
\<close>

fun update_common :: "string \<Rightarrow> (string \<times> string) list \<Rightarrow> attrs \<Rightarrow> action list \<times> attrs" where
  "update_common xp [] la = ([], la)"
| "update_common xp ((key, v) # kvs) la =
     (if map_of la key \<noteq> Some v then
        (case update_common xp kvs (AList.update key v la) of
           (acts, la') \<Rightarrow> (UpdateAttrib xp key v # acts, la'))
      else update_common xp kvs la)"

fun insert_new :: "string \<Rightarrow> (string \<times> string) list \<Rightarrow> attrs \<Rightarrow> action list \<times> attrs" where
  "insert_new xp [] la = ([], la)"
| "insert_new xp ((key, v) # kvs) la =
     (case insert_new xp kvs (AList.update key v la) of
        (acts, la') \<Rightarrow> (InsertAttrib xp key v # acts, la'))"

fun delete_removed :: "string \<Rightarrow> string list \<Rightarrow> attrs \<Rightarrow> action list \<times> attrs" where
  "delete_removed xp [] la = ([], la)"
| "delete_removed xp (key # keys) la =
     (if map_of la key = None then delete_removed xp keys la
      else
        (case delete_removed xp keys (AList.delete key la) of
           (acts, la') \<Rightarrow> (DeleteAttrib xp key # acts, la')))"

definition attr_actions :: "string \<Rightarrow> attrs \<Rightarrow> attrs \<Rightarrow> action list \<times> attrs" where
  "attr_actions xp la ra =
     (let left_keys = set (map fst la);
          right_keys = set (map fst ra);
          common = sort_key fst (filter (\<lambda>(k, v). k \<in> left_keys) ra);
          new = sort_key fst (filter (\<lambda>(k, v). k \<notin> left_keys) ra);
          removed = sort (filter (\<lambda>k. k \<notin> right_keys) (remdups (map fst la)))
      in case update_common xp common la of
           (acts1, la1) \<Rightarrow>
             (case insert_new xp new la1 of
                (acts2, la2) \<Rightarrow>
                  (case delete_removed xp removed la2 of
                     (acts3, la3) \<Rightarrow> (acts1 @ acts2 @ acts3, la3))))"

definition update_node_attr :: "nid \<Rightarrow> elem \<Rightarrow> differ \<Rightarrow> exn + (action list \<times> differ)" where
  "update_node_attr l r st =
     bind (getpath (left st) (Some l)) (\<lambda>left_xpath.
     bind (deref (left st) (Some l)) (\<lambda>le.
       case attr_actions left_xpath (eattrib le) (eattrib r) of
         (acts, la) \<Rightarrow> Inr (acts, st\<lparr>left := update_elem l (set_eattrib la) (left st)\<rparr>)))"

definition update_node_text :: "nid option \<Rightarrow> elem \<Rightarrow> differ \<Rightarrow> exn + (action list \<times> differ)" where
  "update_node_text lnode r st =
     bind (getpath (left st) lnode) (\<lambda>left_xpath.
     bind (deref (left st) lnode) (\<lambda>le.
       let l = eid le;
           acts1 = (if etext le \<noteq> etext r then [UpdateTextIn left_xpath (etext r)] else []);
           acts2 = (if etail le \<noteq> etail r then [UpdateTextAfter left_xpath (etail r)] else [])
       in Inr (acts1 @ acts2,
               st\<lparr>left := update_elem l (set_etail (etail r)) (update_elem l (set_etext (etext r)) (left st))\<rparr>)))"

text \<open>
  \<open>find_pos\<close>. The counting loop asks whether the child itself, not its \<open>id\<close>, is a
  key of the dictionary.
\<close>

fun count_pos :: "differ \<Rightarrow> nid option \<Rightarrow> nid \<Rightarrow> elem list \<Rightarrow> nat" where
  "count_pos st node_match sibling_match [] = 0"
| "count_pos st node_match sibling_match (child # rest) =
     (if Some (eid child) = node_match then count_pos st node_match sibling_match rest
      else
        (if eid child \<in> inorder st \<or> l2rmap st (Obj (eid child)) = None then 1 else 0) +
        (if eid child = sibling_match then 0 else count_pos st node_match sibling_match rest))"

definition find_pos :: "differ \<Rightarrow> nid \<Rightarrow> exn + nat" where
  "find_pos st node =
     (case parent_elem node (right st) of
        None \<Rightarrow> Inl AttributeError
      | Some parent \<Rightarrow>
          (case find (\<lambda>sibling. eid sibling \<in> inorder st)
                  (rev (takeWhile (\<lambda>c. eid c \<noteq> node) (echildren parent))) of
             None \<Rightarrow> Inr 0
           | Some sibling \<Rightarrow>
               bind (lookup (r2lmap st) (Id (Some (eid sibling)))) (\<lambda>sibling_match.
                 case sibling_match of
                   None \<Rightarrow> Inl AttributeError
                 | Some sm \<Rightarrow>
                     (let node_match = (case r2lmap st (Id (Some node)) of None \<Rightarrow> None | Some v \<Rightarrow> v)
                      in case parent_elem sm (left st) of
                           None \<Rightarrow> Inl AttributeError
                         | Some lparent \<Rightarrow> Inr (count_pos st node_match sm (echildren lparent))))))"

text \<open>
  Moving a node: it is removed from its parent and inserted into the target.
\<close>

definition move_node :: "nid \<Rightarrow> nid option \<Rightarrow> nat \<Rightarrow> elem \<Rightarrow> exn + elem" where
  "move_node n target pos tree =
     bind (deref tree (Some n)) (\<lambda>e.
       if parent_elem n tree = None then Inl AttributeError
       else
         bind (deref (remove_elem n tree) target) (\<lambda>t.
           Inr (update_elem (eid t) (insert_child pos e) (remove_elem n tree))))"

definition mark_inorder :: "nid \<Rightarrow> nid \<Rightarrow> differ \<Rightarrow> differ" where
  "mark_inorder l r st = st\<lparr>inorder := insert r (insert l (inorder st))\<rparr>"

text \<open>\<open>align_children\<close>.\<close>

definition matched_children :: "(pykey \<rightharpoonup> nid option) \<Rightarrow> elem \<Rightarrow> nid \<Rightarrow> elem list \<Rightarrow> exn + elem list" where
  "matched_children m other_tree other cs =
     fold (\<lambda>c acc.
        bind acc (\<lambda>kept.
          case m (Id (Some (eid c))) of
            None \<Rightarrow> Inr kept
          | Some None \<Rightarrow> Inl AttributeError
          | Some (Some partner) \<Rightarrow>
              Inr (if getparent other_tree partner = Some other then kept @ [c] else kept)))
       cs (Inr [])"

fun mark_lcs :: "elem list \<Rightarrow> elem list \<Rightarrow> history \<Rightarrow> differ \<Rightarrow> exn + differ" where
  "mark_lcs lchildren rchildren [] st = Inr st"
| "mark_lcs lchildren rchildren ((x, y) # ps) st =
     bind (index lchildren x) (\<lambda>l.
     bind (index rchildren y) (\<lambda>r.
       mark_lcs lchildren rchildren ps (mark_inorder (eid l) (eid r) st)))"

definition align_move :: "nid \<Rightarrow> differ \<Rightarrow> exn + (action list \<times> differ)" where
  "align_move lchild st =
     bind (lookup (l2rmap st) (Id (Some lchild))) (\<lambda>rchild.
       case rchild of
         None \<Rightarrow> Inl AttributeError
       | Some rc \<Rightarrow>
           bind (find_pos st rc) (\<lambda>right_pos.
           bind (lookup (r2lmap st) (Id (getparent (right st) rc))) (\<lambda>ltarget.
           bind (getpath (left st) (Some lchild)) (\<lambda>p1.
           bind (getpath (left st) ltarget) (\<lambda>p2.
           bind (move_node lchild ltarget right_pos (left st)) (\<lambda>tree.
             Inr ([MoveNode p1 p2 right_pos],
                  mark_inorder lchild rc (st\<lparr>left := tree\<rparr>))))))))"

fun align_moves :: "nid list \<Rightarrow> differ \<Rightarrow> exn + (action list \<times> differ)" where
  "align_moves [] st = Inr ([], st)"
| "align_moves (lchild # lchildren) st =
     (if lchild \<in> inorder st then align_moves lchildren st
      else
        bind (align_move lchild st) (\<lambda>(acts, st1).
        bind (align_moves lchildren st1) (\<lambda>(acts', st2).
          Inr (acts @ acts', st2))))"

definition align_children :: "nid \<Rightarrow> elem \<Rightarrow> differ \<Rightarrow> exn + (action list \<times> differ)" where
  "align_children l r st =
     bind (matched_children (l2rmap st) (right st) (eid r) (elem_children (left st) l)) (\<lambda>lchildren.
     bind (matched_children (r2lmap st) (left st) l (echildren r)) (\<lambda>rchildren.
       if lchildren = [] \<or> rchildren = [] then Inr ([], st)
       else
         bind (longest_common_subsequence
                 (\<lambda>x y. l2rmap st (Id (Some (eid x))) = Some (Some (eid y))) lchildren rchildren) (\<lambda>lcs.
         bind (mark_lcs lchildren rchildren lcs st) (\<lambda>st1.
           align_moves (map eid lchildren) st1))))"

text \<open>
  One round of the loop of \<open>diff\<close> over the right nodes, and the loop.
\<close>

definition new_id :: "nid \<Rightarrow> nid" where
  "new_id r = (case r of RightN p \<Rightarrow> NewN p | LeftN p \<Rightarrow> NewN p | NewN p \<Rightarrow> NewN p)"

definition diff_insert :: "nid option \<Rightarrow> elem \<Rightarrow> differ \<Rightarrow> exn + (action list \<times> nid \<times> differ)" where
  "diff_insert ltarget rnode st =
     bind (find_pos st (eid rnode)) (\<lambda>pos.
     bind (getpath (left st) ltarget) (\<lambda>p.
     bind (deref (left st) ltarget) (\<lambda>t.
       let lnode = new_id (eid rnode);
           st1 = append_match (Some lnode) (Some (eid rnode)) st;
           st2 = st1\<lparr>left := update_elem (eid t)
                             (insert_child pos (Elem lnode (etag rnode) [] None None [])) (left st1)\<rparr>;
           st3 = mark_inorder lnode (eid rnode) st2
       in bind (update_node_attr lnode rnode st3) (\<lambda>(acts, st4).
            Inr (InsertNode p (etag rnode) pos # acts, lnode, st4)))))"

definition diff_move :: "nid option \<Rightarrow> nid \<Rightarrow> elem \<Rightarrow> differ \<Rightarrow> exn + (action list \<times> differ)" where
  "diff_move ltarget lnode rnode st =
     (if ltarget \<noteq> getparent (left st) lnode then
        bind (find_pos st (eid rnode)) (\<lambda>pos.
        bind (getpath (left st) (Some lnode)) (\<lambda>p1.
        bind (getpath (left st) ltarget) (\<lambda>p2.
        bind (move_node lnode ltarget pos (left st)) (\<lambda>tree.
          Inr ([MoveNode p1 p2 pos], mark_inorder lnode (eid rnode) (st\<lparr>left := tree\<rparr>))))))
      else Inr ([], st))"

definition diff_matched :: "nid option \<Rightarrow> nid option \<Rightarrow> elem \<Rightarrow> differ \<Rightarrow> exn + (action list \<times> nid \<times> differ)" where
  "diff_matched ltarget lnode rnode st =
     (case lnode of
        None \<Rightarrow> Inl AttributeError
      | Some l \<Rightarrow>
          bind (deref (left st) lnode) (\<lambda>le.
          bind (diff_move ltarget l rnode st) (\<lambda>(acts1, st1).
          bind (update_node_tag l rnode st1) (\<lambda>(acts2, st2).
          bind (update_node_attr l rnode st2) (\<lambda>(acts3, st3).
            Inr (acts1 @ acts2 @ acts3, l, st3))))))"

definition diff_node :: "elem \<Rightarrow> differ \<Rightarrow> exn + (action list \<times> differ)" where
  "diff_node rnode st =
     (let rparent = getparent (right st) (eid rnode);
          ltarget = (case r2lmap st (Id rparent) of None \<Rightarrow> None | Some v \<Rightarrow> v)
      in bind (case r2lmap st (Id (Some (eid rnode))) of
                 None \<Rightarrow> diff_insert ltarget rnode st
               | Some lnode \<Rightarrow> diff_matched ltarget lnode rnode st) (\<lambda>(acts1, l, st1).
         bind (align_children l rnode st1) (\<lambda>(acts2, st2).
         bind (lookup (r2lmap st2) (Id (Some (eid rnode)))) (\<lambda>lnode.
         bind (update_node_text lnode rnode st2) (\<lambda>(acts3, st3).
           Inr (acts1 @ acts2 @ acts3, st3))))))"

fun diff_nodes :: "elem list \<Rightarrow> differ \<Rightarrow> exn + (action list \<times> differ)" where
  "diff_nodes [] st = Inr ([], st)"
| "diff_nodes (rnode # rnodes) st =
     bind (diff_node rnode st) (\<lambda>(acts, st1).
     bind (diff_nodes rnodes st1) (\<lambda>(acts', st2).
       Inr (acts @ acts', st2)))"

text \<open>The last loop of \<open>diff\<close>: the unmatched left nodes are deleted.\<close>

fun diff_deletes :: "nid list \<Rightarrow> differ \<Rightarrow> exn + (action list \<times> differ)" where
  "diff_deletes [] st = Inr ([], st)"
| "diff_deletes (lnode # lnodes) st =
     (if l2rmap st (Id (Some lnode)) = None then
        bind (getpath (left st) (Some lnode)) (\<lambda>p.
          if parent_elem lnode (left st) = None then Inl AttributeError
          else
            bind (diff_deletes lnodes (st\<lparr>left := remove_elem lnode (left st)\<rparr>)) (\<lambda>(acts, st1).
              Inr (DeleteNode p # acts, st1)))
      else diff_deletes lnodes st)"

definition diff_script :: "differ \<Rightarrow> exn + (action list \<times> differ)" where
  "diff_script st =
     bind (diff_nodes (breadth_first_traverse (right st)) st) (\<lambda>(acts1, st1).
     bind (diff_deletes (map eid (reverse_post_order_traverse (left st1))) st1) (\<lambda>(acts2, st2).
       Inr (acts1 @ acts2, st2)))"

text \<open>
  \<open>Differ(F, uniqueattrs, fast_match).diff(left, right)\<close>, drained: the edit script and
  the state of the differ at the end, whose \<open>left\<close> is the mutated copy.
\<close>

definition diff :: "config \<Rightarrow> (ustring \<Rightarrow> ustring \<Rightarrow> nat) \<Rightarrow> xml \<Rightarrow> xml \<Rightarrow> exn + (action list \<times> differ)" where
  "diff cfg lev l r = bind (match_trees cfg lev (set_trees l r)) diff_script"


section \<open>The rich-text renderer (formatting.py)\<close>

text \<open>
  \<open>dmp.diff_main\<close> is a parameter: \<open>diff_main c1 c2\<close> is the list of
  \<open>(op, segment)\<close> pairs. The iteration order of a Python set of strings is not fixed
  by the language; \<open>order\<close> stands for it wherever the source iterates over a set.
\<close>

type_synonym ph_state = "(ustring \<times> int) list"

definition state_get :: "ph_state \<Rightarrow> ustring \<Rightarrow> int" where
  "state_get st k = (case map_of st k of None \<Rightarrow> 0 | Some n \<Rightarrow> n)"

text \<open>
  \<open>_get_content_and_states\<close>: the loop over the tokens, with \<open>result\<close>,
  \<open>stateByIndex\<close>, \<open>currentState\<close> and \<open>open_close_map\<close>.
\<close>

fun content_and_states ::
  "maker \<Rightarrow> ustring list \<Rightarrow> ustring list \<Rightarrow> (nat \<rightharpoonup> ph_state) \<Rightarrow> ph_state \<Rightarrow>
   (ustring option \<rightharpoonup> ustring option) \<Rightarrow> exn + (ustring list \<times> (nat \<rightharpoonup> ph_state))"
where
  "content_and_states mk [] result stateByIndex currentState open_close_map =
     Inr (result, stateByIndex)"
| "content_and_states mk (char # rest) result stateByIndex currentState open_close_map =
     (if is_placeholder mk char then
        (case map_of (placeholder2tag mk) char of
           None \<Rightarrow> Inl KeyError
         | Some entry \<Rightarrow>
             if ttype entry = T_SINGLE then
               content_and_states mk rest (result @ [char]) stateByIndex currentState open_close_map
             else if ttype entry = T_OPEN then
               (let ocm = open_close_map(Some char \<mapsto> close_ph entry, close_ph entry \<mapsto> Some char);
                    cur = AList.update char (state_get currentState char + 1) currentState
                in content_and_states mk rest result (stateByIndex(length result \<mapsto> cur)) cur ocm)
             else
               (case open_close_map (Some char) of
                  None \<Rightarrow> Inl KeyError
                | Some None \<Rightarrow> Inl KeyError
                | Some (Some open_char) \<Rightarrow>
                    (case map_of currentState open_char of
                       None \<Rightarrow> Inl KeyError
                     | Some n \<Rightarrow>
                         (let cur = AList.update open_char (n - 1) currentState
                          in content_and_states mk rest result
                               (stateByIndex(length result \<mapsto> cur)) cur open_close_map))))
      else content_and_states mk rest (result @ [char]) stateByIndex currentState open_close_map)"

definition get_content_and_states :: "maker \<Rightarrow> ustring list \<Rightarrow> exn + (ustring list \<times> (nat \<rightharpoonup> ph_state))" where
  "get_content_and_states mk contentArray =
     content_and_states mk contentArray [] Map.empty [] Map.empty"

definition update_state :: "ustring set \<Rightarrow> (nat \<rightharpoonup> ph_state) \<Rightarrow> nat \<Rightarrow> ustring set" where
  "update_state currentState stateByIndex i =
     (case stateByIndex i of
        None \<Rightarrow> currentState
      | Some newState \<Rightarrow> set (filter (\<lambda>key. state_get newState key > 0) (map fst newState)))"

definition diff_attr :: "string \<Rightarrow> string" where
  "diff_attr name = ''{'' @ DIFF_NS @ ''}'' @ name"

definition get_modified_ph :: "maker \<Rightarrow> ustring \<Rightarrow> string \<Rightarrow> exn + (ustring \<times> maker)" where
  "get_modified_ph mk ph act =
     (case map_of (placeholder2tag mk) ph of
        None \<Rightarrow> Inl KeyError
      | Some entry \<Rightarrow>
          (let e = element entry;
               elem = Element (xtag e) (AList.update (diff_attr act) [] (xattrib e)) (xtext e) (xtail e)
                        (xchildren e)
           in if ttype entry = T_SINGLE then Inr (get_placeholder mk elem T_SINGLE None)
              else
                (case get_placeholder mk elem T_CLOSE None of
                   (ph_close, mk1) \<Rightarrow>
                     if ttype entry = T_CLOSE then Inr (ph_close, mk1)
                     else Inr (get_placeholder mk1 elem T_OPEN (Some ph_close)))))"

fun get_modified_phs :: "maker \<Rightarrow> ustring list \<Rightarrow> string \<Rightarrow> exn + (ustring list \<times> maker)" where
  "get_modified_phs mk [] act = Inr ([], mk)"
| "get_modified_phs mk (ph # phs) act =
     bind (get_modified_ph mk ph act) (\<lambda>(p, mk1).
     bind (get_modified_phs mk1 phs act) (\<lambda>(ps, mk2). Inr (p # ps, mk2)))"

definition is_link_element :: "maker \<Rightarrow> ustring \<Rightarrow> exn + bool" where
  "is_link_element mk ph =
     (case map_of (placeholder2tag mk) ph of
        None \<Rightarrow> Inl KeyError
      | Some entry \<Rightarrow> Inr (xtag (element entry) = ''a''))"

fun filter_links :: "maker \<Rightarrow> ustring list \<Rightarrow> exn + ustring list" where
  "filter_links mk [] = Inr []"
| "filter_links mk (ph # phs) =
     bind (is_link_element mk ph) (\<lambda>b.
     bind (filter_links mk phs) (\<lambda>ls. Inr (if b then ph # ls else ls)))"

definition href_of :: "maker \<Rightarrow> ustring \<Rightarrow> exn + string" where
  "href_of mk ph =
     (case map_of (placeholder2tag mk) ph of
        None \<Rightarrow> Inl KeyError
      | Some entry \<Rightarrow>
          (case map_of (xattrib (element entry)) ''href'' of
             None \<Rightarrow> Inl KeyError
           | Some h \<Rightarrow> Inr h))"

text \<open>
  \<open>_merge_link_placeholders\<close> changes the three sets in place; the model returns them.
\<close>

definition merge_link_placeholders ::
  "(ustring set \<Rightarrow> ustring list) \<Rightarrow> maker \<Rightarrow> ustring set \<Rightarrow> ustring set \<Rightarrow> ustring set \<Rightarrow>
   exn + (ustring set \<times> ustring set \<times> ustring set \<times> maker)"
where
  "merge_link_placeholders order mk common inserted deleted =
     bind (filter_links mk (order inserted)) (\<lambda>insertedLinks.
       if insertedLinks = [] then Inr (common, inserted, deleted, mk)
       else
         bind (filter_links mk (order deleted)) (\<lambda>removedLinks.
           if removedLinks = [] then Inr (common, inserted, deleted, mk)
           else
             (let insertedLinkPH = last insertedLinks;
                  removedLinkPH = last removedLinks;
                  inserted' = inserted - {insertedLinkPH};
                  deleted' = deleted - {removedLinkPH}
              in bind (href_of mk removedLinkPH) (\<lambda>oldHref.
                 bind (href_of mk insertedLinkPH) (\<lambda>newHref.
                   if oldHref = newHref then
                     Inr (insert removedLinkPH common, inserted', deleted', mk)
                   else
                     (case get_both_placeholders mk
                             (Element ''a'' [(diff_attr ''change-target'', oldHref @ '' -> '' @ newHref)]
                                None None []) of
                        ((ph_open, ph_close), mk1) \<Rightarrow>
                          Inr (insert ph_open common, inserted', deleted', mk1)))))))"

definition merge_states ::
  "(ustring set \<Rightarrow> ustring list) \<Rightarrow> maker \<Rightarrow> ustring set \<Rightarrow> ustring set \<Rightarrow> exn + (ustring set \<times> maker)"
where
  "merge_states order mk leftState rightState =
     bind (merge_link_placeholders order mk (leftState \<inter> rightState) (rightState - leftState)
             (leftState - rightState)) (\<lambda>(common, inserted, deleted, mk1).
     bind (get_modified_phs mk1 (order inserted) ''insert-formatting'') (\<lambda>(ins, mk2).
     bind (get_modified_phs mk2 (order deleted) ''delete-formatting'') (\<lambda>(dels, mk3).
       Inr (common \<union> set ins \<union> set dels, mk3))))"

text \<open>
  The first loop of \<open>_diff_rich_text\<close>: the state of every token of the word diff.
\<close>

definition diff_charsToWords :: "(int \<times> ustring) list \<Rightarrow> ustring list \<Rightarrow> exn + (int \<times> ustring) list" where
  "diff_charsToWords diff_list lineArray =
     fold (\<lambda>(op, c) acc.
        bind acc (\<lambda>ws. bind (index lineArray (int c)) (\<lambda>word. Inr (ws @ [(op, word)]))))
       (concat (map (\<lambda>(op, txt). map (\<lambda>c. (op, c)) txt) diff_list)) (Inr [])"

fun token_states ::
  "(ustring set \<Rightarrow> ustring list) \<Rightarrow> maker \<Rightarrow> (nat \<rightharpoonup> ph_state) \<Rightarrow> (nat \<rightharpoonup> ph_state) \<Rightarrow>
   (int \<times> ustring) list \<Rightarrow> nat \<Rightarrow> nat \<Rightarrow> ustring set \<Rightarrow> ustring set \<Rightarrow>
   exn + (ustring set list \<times> maker)"
where
  "token_states order mk ls rs [] leftIndex rightIndex curL curR = Inr ([], mk)"
| "token_states order mk ls rs ((op, w) # ws) leftIndex rightIndex curL curR =
     (if op = 0 then
        (let curL' = update_state curL ls leftIndex;
             curR' = update_state curR rs rightIndex
         in bind (merge_states order mk curL' curR') (\<lambda>(commonState, mk1).
            bind (token_states order mk1 ls rs ws (leftIndex + 1) (rightIndex + 1) curL' curR') (\<lambda>(sts, mk2).
              Inr (commonState # sts, mk2))))
      else if op = 1 then
        (let curR' = update_state curR rs rightIndex
         in bind (case map_of (diff_tags mk) ''insert'' of
                    None \<Rightarrow> Inl KeyError | Some (op_ph, cl_ph) \<Rightarrow> Inr op_ph) (\<lambda>ins.
            bind (token_states order mk ls rs ws leftIndex (rightIndex + 1) curL curR') (\<lambda>(sts, mk2).
              Inr (insert ins curR' # sts, mk2))))
      else if op = - 1 then
        (let curL' = update_state curL ls leftIndex
         in bind (case map_of (diff_tags mk) ''delete'' of
                    None \<Rightarrow> Inl KeyError | Some (op_ph, cl_ph) \<Rightarrow> Inr op_ph) (\<lambda>del.
            bind (token_states order mk ls rs ws (leftIndex + 1) rightIndex curL' curR) (\<lambda>(sts, mk2).
              Inr (insert del curL' # sts, mk2))))
      else token_states order mk ls rs ws leftIndex rightIndex curL curR)"

text \<open>
  The second loop: the placeholders are put back around the tokens. \<open>close_opened\<close> is
  the inner \<open>while closedPH\<close> loop; it pops \<open>currentOpenedPH\<close> (whose last element
  is the top of the stack).
\<close>

function close_opened ::
  "maker \<Rightarrow> ustring set \<Rightarrow> ustring list \<Rightarrow> ustring option list \<Rightarrow> ustring set \<Rightarrow>
   exn + (ustring list \<times> ustring option list \<times> ustring set)"
where
  "close_opened mk closedPH currentOpenedPH splitOutput phToReopen =
     (if closedPH = {} then Inr (currentOpenedPH, splitOutput, phToReopen)
      else if currentOpenedPH = [] then Inl IndexError
      else
        (case map_of (placeholder2tag mk) (last currentOpenedPH) of
           None \<Rightarrow> Inl KeyError
         | Some entry \<Rightarrow>
             if last currentOpenedPH \<in> closedPH then
               close_opened mk (closedPH - {last currentOpenedPH}) (butlast currentOpenedPH)
                 (splitOutput @ [close_ph entry]) phToReopen
             else
               close_opened mk closedPH (butlast currentOpenedPH)
                 (splitOutput @ [close_ph entry]) (insert (last currentOpenedPH) phToReopen)))"
  by pat_completeness auto
termination
  by (relation "measure (\<lambda>(mk, closedPH, currentOpenedPH, splitOutput, phToReopen). length currentOpenedPH)")
     auto

definition sorted_reverse :: "ustring set \<Rightarrow> ustring list" where
  "sorted_reverse s = rev (sorted_list_of_set s)"

fun reinsert ::
  "maker \<Rightarrow> (ustring set \<times> ustring) list \<Rightarrow> ustring set \<Rightarrow> ustring list \<Rightarrow> ustring option list \<Rightarrow>
   exn + (ustring list \<times> ustring option list)"
where
  "reinsert mk [] oldState currentOpenedPH splitOutput = Inr (currentOpenedPH, splitOutput)"
| "reinsert mk ((newState, word) # rest) oldState currentOpenedPH splitOutput =
     bind (close_opened mk (oldState - newState) currentOpenedPH splitOutput {}) (\<lambda>(stack, out, phToReopen).
       (let opens = sorted_reverse ((newState - oldState) \<union> phToReopen)
        in reinsert mk rest newState (stack @ opens) (out @ map Some opens @ [Some word])))"

fun close_remaining :: "maker \<Rightarrow> ustring list \<Rightarrow> exn + ustring option list" where
  "close_remaining mk [] = Inr []"
| "close_remaining mk (ph # phs) =
     (case map_of (placeholder2tag mk) ph of
        None \<Rightarrow> Inl KeyError
      | Some entry \<Rightarrow> bind (close_remaining mk phs) (\<lambda>out. Inr (close_ph entry # out)))"

text \<open>\<open>_insert_spacing\<close> and the final \<open>"".join\<close>, which cannot join \<open>None\<close>.\<close>

fun insert_spacing :: "maker \<Rightarrow> bool \<Rightarrow> ustring option list \<Rightarrow> exn + ustring option list" where
  "insert_spacing mk pendingSpace [] = Inr []"
| "insert_spacing mk pendingSpace (token # tokens) =
     (case token of
        None \<Rightarrow> Inl TypeError
      | Some tok \<Rightarrow>
          if is_placeholder mk tok then
            (case map_of (placeholder2tag mk) tok of
               None \<Rightarrow> Inl KeyError
             | Some entry \<Rightarrow>
                 if pendingSpace \<and> ttype entry = T_OPEN then
                   bind (insert_spacing mk False tokens) (\<lambda>out. Inr (Some [32] # token # out))
                 else bind (insert_spacing mk pendingSpace tokens) (\<lambda>out. Inr (token # out)))
          else
            bind (insert_spacing mk True tokens) (\<lambda>out.
              Inr ((if pendingSpace then [Some [32]] else []) @ token # out)))"

fun join_tokens :: "ustring option list \<Rightarrow> exn + ustring" where
  "join_tokens [] = Inr []"
| "join_tokens (None # ts) = Inl TypeError"
| "join_tokens (Some t # ts) = bind (join_tokens ts) (\<lambda>s. Inr (t @ s))"

definition diff_rich_text ::
  "(ustring \<Rightarrow> ustring \<Rightarrow> (int \<times> ustring) list) \<Rightarrow> (ustring set \<Rightarrow> ustring list) \<Rightarrow> maker \<Rightarrow>
   ustring list \<Rightarrow> ustring list \<Rightarrow> exn + (ustring \<times> maker)"
where
  "diff_rich_text diff_main order mk leftValueArray rightValueArray =
     bind (get_content_and_states mk leftValueArray) (\<lambda>(leftResult, leftStateByIndex).
     bind (get_content_and_states mk rightValueArray) (\<lambda>(rightResult, rightStateByIndex).
       case diff_wordsToChars leftResult rightResult of
         (char1, char2, wordsArray) \<Rightarrow>
           bind (diff_charsToWords (diff_main char1 char2) wordsArray) (\<lambda>diffWords.
           bind (token_states order mk leftStateByIndex rightStateByIndex diffWords 0 0 {} {}) (\<lambda>(stateByIndex, mk1).
           bind (reinsert mk1 (zip stateByIndex (map snd diffWords)) {} [] []) (\<lambda>(stack, out).
           bind (close_remaining mk1 (rev stack)) (\<lambda>closes.
           bind (insert_spacing mk1 False (out @ closes)) (\<lambda>spaced.
           bind (join_tokens spaced) (\<lambda>txt. Inr (txt, mk1)))))))))"

definition WS_TEXT :: nat where
  "WS_TEXT = 2"

definition make_diff_tags ::
  "(ustring \<Rightarrow> ustring \<Rightarrow> (int \<times> ustring) list) \<Rightarrow> (ustring set \<Rightarrow> ustring list) \<Rightarrow> bool \<Rightarrow> maker \<Rightarrow>
   ustring option \<Rightarrow> ustring option \<Rightarrow> exn + (ustring \<times> maker)"
where
  "make_diff_tags diff_main order normalize_text mk left_value right_value =
     (let lv = (if normalize_text then strip (cleanup_whitespace (or_empty left_value)) else or_empty left_value);
          rv = (if normalize_text then strip (cleanup_whitespace (or_empty right_value)) else or_empty right_value);
          phs = concat (map fst (placeholder2tag mk))
      in diff_rich_text diff_main order mk (splitString lv phs) (splitString rv phs))"


section \<open>Properties of the edit script generator\<close>

definition edit_script :: "exn + (action list \<times> differ) \<Rightarrow> exn + action list" where
  "edit_script r = (case r of Inl e \<Rightarrow> Inl e | Inr (acts, st) \<Rightarrow> Inr acts)"

definition default_config :: config where
  "default_config = \<lparr>F = 1 / 2, uniqueattrs = [], fast_match = False\<rparr>"

text \<open>
  The position as the specification words it: with \<open>s\<close> the rightmost previous sibling
  of the right node that is in order and \<open>s_left\<close> its partner, the number of children
  of the parent of \<open>s_left\<close>, up to and including \<open>s_left\<close>, that are in order or have
  no partner, the partner of the node itself left out.
\<close>

definition upto_sibling :: "nid \<Rightarrow> elem list \<Rightarrow> elem list" where
  "upto_sibling s cs = takeWhile (\<lambda>c. eid c \<noteq> s) cs @ take 1 (dropWhile (\<lambda>c. eid c \<noteq> s) cs)"

definition find_pos_spec :: "differ \<Rightarrow> nid \<Rightarrow> exn + nat" where
  "find_pos_spec st node =
     (case parent_elem node (right st) of
        None \<Rightarrow> Inl AttributeError
      | Some parent \<Rightarrow>
          (case find (\<lambda>sibling. eid sibling \<in> inorder st)
                  (rev (takeWhile (\<lambda>c. eid c \<noteq> node) (echildren parent))) of
             None \<Rightarrow> Inr 0
           | Some sibling \<Rightarrow>
               bind (lookup (r2lmap st) (Id (Some (eid sibling)))) (\<lambda>sibling_match.
                 case sibling_match of
                   None \<Rightarrow> Inl AttributeError
                 | Some sm \<Rightarrow>
                     (let node_match = (case r2lmap st (Id (Some node)) of None \<Rightarrow> None | Some v \<Rightarrow> v)
                      in case parent_elem sm (left st) of
                           None \<Rightarrow> Inl AttributeError
                         | Some lparent \<Rightarrow>
                             Inr (length (filter
                                    (\<lambda>c. Some (eid c) \<noteq> node_match \<and>
                                         (eid c \<in> inorder st \<or> l2rmap st (Id (Some (eid c))) = None))
                                    (upto_sibling sm (echildren lparent))))))))"

text \<open>
  The state of the differ when the loop of \<open>diff\<close> has handled the first \<open>k\<close> nodes of
  the right tree.
\<close>

definition diff_prefix :: "config \<Rightarrow> (ustring \<Rightarrow> ustring \<Rightarrow> nat) \<Rightarrow> xml \<Rightarrow> xml \<Rightarrow> nat \<Rightarrow> exn + differ" where
  "diff_prefix cfg lev l r k =
     bind (match_trees cfg lev (set_trees l r)) (\<lambda>st.
     bind (diff_nodes (take k (breadth_first_traverse (right st))) st) (\<lambda>(acts, st1). Inr st1))"

definition left_x_s :: xml where
  "left_x_s = Element ''root'' [] None None
     [Element ''x'' [] None None [], Element ''s'' [] None None []]"

definition right_s_n_c :: xml where
  "right_s_n_c = Element ''root'' [] None None
     [Element ''s'' [] None None [], Element ''n'' [] None None [],
      Element ''c'' [] None None [Element ''x'' [] None None []]]"

text \<open>
  C5: the left tree is \<open><root><x/><s/></root>\<close>, the right tree
  \<open><root><s/><n/><c><x/></c></root>\<close>. When \<open>diff\<close> comes to the new node \<open>n\<close>,
  its previous sibling \<open>s\<close> is in order and the left child \<open>x\<close> before the partner of
  \<open>s\<close> is matched (with the \<open>x\<close> below \<open>c\<close>) and not in order. The specification does
  not count \<open>x\<close>, which gives position 1; \<open>find_pos\<close> returns 2, and the script inserts
  \<open>n\<close> at position 2.
\<close>

theorem find_pos_counts_matched_sibling:
  "(case diff_prefix default_config lev left_x_s right_s_n_c 2 of
      Inl e \<Rightarrow> False
    | Inr st \<Rightarrow>
        l2rmap st (Id (Some (LeftN [0]))) = Some (Some (RightN [2, 0]))
        \<and> LeftN [0] \<notin> inorder st
        \<and> find_pos st (RightN [1]) = Inr 2
        \<and> find_pos_spec st (RightN [1]) = Inr 1)
   \<and> edit_script (diff default_config lev left_x_s right_s_n_c) =
       Inr [InsertNode ''/root[1]'' ''n'' 2, InsertNode ''/root[1]'' ''c'' 3,
            MoveNode ''/root/x[1]'' ''/root/c[1]'' 0]"
  by code_simp

text \<open>
  A differ with the fast match switched on, and a tree whose inner nodes have the tag of
  their leaves.
\<close>

definition fast_config :: config where
  "fast_config = \<lparr>F = 1 / 2, uniqueattrs = [], fast_match = True\<rparr>"

definition nested_a :: xml where
  "nested_a = Element ''root'' [] None None
     [Element ''a'' [] None None
        [Element ''a'' [] None None [Element ''a'' [] None None [], Element ''a'' [] None None []],
         Element ''a'' [] None None []]]"

text \<open>
  C3: the tree is \<open><root><a><a><a/><a/></a><a/></a></root>\<close> and both arguments of
  \<open>diff\<close> are this tree, with \<open>fast_match\<close> set. While the longest common subsequence
  is computed no node is matched yet, so an \<open>a\<close> with two children is similar to an
  \<open>a\<close> without children (ratio 1/2) and not to its own copy (ratio 1/3): the subsequence
  pairs the left leaf at \<open>[0, 1]\<close> with the right inner node at \<open>[0, 0]\<close> and the left
  node at \<open>[0]\<close> with the right leaf at \<open>[0, 1]\<close>. The edit script then has six actions,
  although the two trees are equal; applying them leaves the tree as it was.
\<close>

theorem fast_match_identical_trees_script:
  "(case match_trees fast_config lev (set_trees nested_a nested_a) of
      Inl e \<Rightarrow> False
    | Inr st \<Rightarrow>
        matches st =
          [(Some (LeftN [0, 0, 0]), Some (RightN [0, 0, 0])),
           (Some (LeftN [0, 0, 1]), Some (RightN [0, 0, 1])),
           (Some (LeftN [0, 1]), Some (RightN [0, 0])),
           (Some (LeftN [0]), Some (RightN [0, 1])),
           (Some (LeftN []), Some (RightN []))])
   \<and> edit_script (diff fast_config lev nested_a nested_a) =
       Inr [InsertNode ''/root[1]'' ''a'' 0,
            MoveNode ''/root/a[2]/a[2]'' ''/root/a[1]'' 0,
            MoveNode ''/root/a[2]'' ''/root/a[1]'' 1,
            MoveNode ''/root/a/a[2]/a/a[1]'' ''/root/a/a[1]'' 0,
            MoveNode ''/root/a/a[2]/a/a[1]'' ''/root/a/a[1]'' 1,
            DeleteNode ''/root/a/a[2]/a[1]'']
   \<and> (case diff fast_config lev nested_a nested_a of
         Inl e \<Rightarrow> False
       | Inr (acts, st) \<Rightarrow> erase (left st) = nested_a)
   \<and> edit_script (diff default_config lev nested_a nested_a) = Inr []"
  by code_simp


section \<open>Properties of the rich-text renderer\<close>

text \<open>
  The maker of an \<open>HTMLFormatter\<close> whose text tag is \<open>p\<close>, whose dual formatting tag
  is \<open>b\<close> and whose complex formatting tag is \<open>a\<close>, and two paragraphs with the same
  words: a link, and the same link with its text in bold.
\<close>

definition html_b_a :: maker where
  "html_b_a = HTMLPlaceholderMaker [] [''b''] [''a''] [''p'']"

definition link_plain :: xml where
  "link_plain = Element ''p'' [] None None [Element ''a'' [(''href'', ''x'')] (Some [116]) None []]"

definition link_bold :: xml where
  "link_bold =
     Element ''p'' [] None None
       [Element ''a'' [(''href'', ''x'')] None None [Element ''b'' [] (Some [116]) None []]]"

text \<open>
  Iterating over a Python set yields every member once. For a set of one or two members
  this leaves one or two possible sequences.
\<close>

lemma iter_single:
  assumes "set xs = {a}" and "distinct xs"
  shows "xs = [a]"
proof -
  have "length xs = 1"
    using assms distinct_card [of xs] by simp
  then obtain x where "xs = [x]"
    by (cases xs) auto
  with assms show ?thesis
    by simp
qed

lemma iter_pair:
  assumes "set xs = {a, b}" and "distinct xs" and "a \<noteq> b"
  shows "xs = [a, b] \<or> xs = [b, a]"
proof -
  have "length xs = 2"
    using assms distinct_card [of xs] by simp
  then obtain x y where "xs = [x, y]"
    by (cases xs; cases "tl xs") auto
  with assms show ?thesis
    by (auto simp: doubleton_eq_iff)
qed

lemmas maker_defs = HTMLPlaceholderMaker_def PlaceholderMaker_def get_both_placeholders_def
  get_open_close_def get_placeholder_def canonicalize_def canonical_text_def new_element_def
  PLACEHOLDER_START_def INSERT_NAME_def DELETE_NAME_def DIFF_NS_def Let_def do_tree_def
  is_formatting_def or_empty_def

lemmas renderer_defs = make_diff_tags_def strip_def cleanup_whitespace_def isspace_def
  splitString_def flush_def diff_rich_text_def get_content_and_states_def is_placeholder_def
  state_get_def diff_wordsToChars_def diff_charsToWords_def index_def py_index_def bind_def
  update_state_def merge_states_def merge_link_placeholders_def is_link_element_def href_of_def
  get_modified_ph_def diff_attr_def sorted_reverse_def

lemmas undo_defs = undo_tree_def undo_element_body_def undo_text_def undo_tail_def
  undo_segment_def seq_def split_string_def truthy_def set_element_tail_def

text \<open>
  C8: the left paragraph is a link with the text \<open>t\<close>, \<open><p><a>t</a></p>\<close>, and the
  right one the same link with its text in bold, \<open><p><a><b>t</b></a></p>\<close>; both links
  have the \<open>href\<close> x. Both paragraphs are encoded by \<open>do_tree\<close>, the texts are merged
  by \<open>_make_diff_tags\<close> and the result is decoded by \<open>undo_tree\<close>, for every
  \<open>diff_main\<close> that reports the one common word as one equality and for every iteration
  order of sets. The link of the left text (\<open>0xE008\<close>) and the derived placeholder of
  the inserted \<open>b\<close> (\<open>0xE00C\<close>, made by \<open>get_modified_ph\<close> after the links) open at the
  same token. The higher code point is written first, so the dual tag \<open>b\<close> opens outside
  the complex tag \<open>a\<close>: the decoded paragraph is \<open><p><b><a>t</a></b></p>\<close>, where
  \<open>b\<close> carries the attribute \<open>diff:insert-formatting\<close>.
\<close>

theorem rich_text_dual_opens_outside_link:
  assumes dm: "diff_main [1] [1] = [(0, [1])]"
    and iter: "\<forall>S. finite S \<longrightarrow> set (order S) = S \<and> distinct (order S)"
  shows "case do_tree html_b_a link_plain of (l, mk1) \<Rightarrow>
         case do_tree mk1 link_bold of (r, mk2) \<Rightarrow>
           xtext l = Some [57352, 116, 57351] \<and>
           xtext r = Some [57354, 57350, 116, 57349, 57353] \<and>
           (case make_diff_tags diff_main order True mk2 (xtext l) (xtext r) of
              Inl e \<Rightarrow> False
            | Inr (txt, mk3) \<Rightarrow>
                txt = [57356, 57352, 116, 57351, 57355] \<and>
                map_of (placeholder2tag mk3) [57356] =
                  Some (PlaceholderEntry
                          (Element ''b'' [(diff_attr ''insert-formatting'', [])] None None [])
                          T_OPEN (Some [57355])) \<and>
                map_of (placeholder2tag mk3) [57352] =
                  Some (PlaceholderEntry (Element ''a'' [(''href'', ''x'')] None None [])
                          T_OPEN (Some [57351])) \<and>
                undo_tree (Suc (Suc (Suc (Suc (Suc (Suc (Suc (Suc (Suc (Suc (Suc (Suc (n))))))))))))) mk3 (set_text l (Some txt)) =
                  Some (Inr (Element ''p'' [] None None
                    [Element ''b'' [(diff_attr ''insert-formatting'', [])] None None
                       [Element ''a'' [(''href'', ''x'')] (Some [116]) None []]])))"
proof -
  have o0: "order {} = []"
    using iter by (metis finite.emptyI set_empty)
  have o1: "order {x} = [x]" for x
    using iter by (simp add: iter_single)
  have "order {[57354], [57350]} = [[57354], [57350]] \<or>
        order {[57354], [57350]} = [[57350], [57354]]"
    using iter by (intro iter_pair) simp_all
  then show ?thesis
  proof
    assume o2: "order {[57354], [57350]} = [[57354], [57350]]"
    from dm show ?thesis
      by (simp add: html_b_a_def link_plain_def link_bold_def o0 o1 o2 maker_defs renderer_defs
          undo_defs)
  next
    assume o2: "order {[57354], [57350]} = [[57350], [57354]]"
    from dm show ?thesis
      by (simp add: html_b_a_def link_plain_def link_bold_def o0 o1 o2 maker_defs renderer_defs
          undo_defs)
  qed
qed

theorem rich_text_dual_opens_outside_link_witness:
  "case do_tree html_b_a link_plain of (l, mk1) \<Rightarrow>
   case do_tree mk1 link_bold of (r, mk2) \<Rightarrow>
     xtext l = Some [57352, 116, 57351] \<and>
     xtext r = Some [57354, 57350, 116, 57349, 57353] \<and>
     (case make_diff_tags (\<lambda>c1 c2. [(0, c1)]) sorted_list_of_set True mk2 (xtext l) (xtext r) of
        Inl e \<Rightarrow> False
      | Inr (txt, mk3) \<Rightarrow>
          txt = [57356, 57352, 116, 57351, 57355] \<and>
          map_of (placeholder2tag mk3) [57356] =
            Some (PlaceholderEntry
                    (Element ''b'' [(diff_attr ''insert-formatting'', [])] None None [])
                    T_OPEN (Some [57355])) \<and>
          map_of (placeholder2tag mk3) [57352] =
            Some (PlaceholderEntry (Element ''a'' [(''href'', ''x'')] None None [])
                    T_OPEN (Some [57351])) \<and>
          undo_tree (Suc (Suc (Suc (Suc (Suc (Suc (Suc (Suc (Suc (Suc (Suc (Suc (0))))))))))))) mk3 (set_text l (Some txt)) =
            Some (Inr (Element ''p'' [] None None
              [Element ''b'' [(diff_attr ''insert-formatting'', [])] None None
                 [Element ''a'' [(''href'', ''x'')] (Some [116]) None []]])))"
  using rich_text_dual_opens_outside_link [of "\<lambda>c1 c2. [(0, c1)]" sorted_list_of_set 0]
  by simp

end
